theory Spec2Isabelle
  imports Main "HOL-Library.Word" "HOL-Library.AList" "HOL-Library.Char_ord" "HOL-Library.List_Lexorder"
begin

section \<open>The Mesos scheduler driver\<close>

text \<open>
  The Go package \<open>mesos\<close> (source file \<open>unnamed/part_001\<close>) and the command-line helper
  \<open>ExtractHostnames\<close> (\<open>pkg/cli/common.go\<close>), as HOL functions. Go strings are byte
  sequences, so a Go \<open>string\<close> is a \<^typ>\<open>string\<close> (a list of 8-bit characters). Methods of the
  driver take the driver and the world (store contents, store calls issued so far, log lines
  written so far, the host name the operating system reports) and return both updated.
\<close>

subsection \<open>Errors and logging\<close>

text \<open>A Go \<open>error\<close> is its message.\<close>

datatype error = Error string

definition errors_New :: "string \<Rightarrow> error" where
  "errors_New msg = Error msg"

text \<open>\<open>errors.Wrap(err, msg)\<close> of \<open>github.com/pkg/errors\<close>: the message is \<open>msg: err\<close>.\<close>

fun errors_Wrap :: "error \<Rightarrow> string \<Rightarrow> error" where
  "errors_Wrap (Error e) msg = Error (msg @ '': '' @ e)"

text \<open>
  A log line is its level and its message; the structured fields that the source attaches
  with \<open>WithField\<close>, \<open>WithFields\<close> and \<open>WithError\<close> are not kept.
\<close>

datatype level = DebugLevel | InfoLevel | WarnLevel | ErrorLevel

type_synonym log_entry = "level \<times> string"

subsection \<open>The store interface and the world\<close>

text \<open>
  \<open>storage.FrameworkInfoStore\<close> is an interface: the driver holds a value of it and calls
  its three methods. It is a record of the three methods over a store state \<open>'s\<close>; \<open>'c\<close> is
  \<open>context.Context\<close>, which the driver only hands on. A method returns the store state it
  leaves behind, so a store is free to do anything on a call.
\<close>

record ('s, 'c) FrameworkInfoStore =
  store_GetFrameworkID :: "'c \<Rightarrow> string \<Rightarrow> 's \<Rightarrow> (error + string) \<times> 's"
  store_GetMesosStreamID :: "'c \<Rightarrow> string \<Rightarrow> 's \<Rightarrow> (error + string) \<times> 's"
  store_SetMesosStreamID :: "'c \<Rightarrow> string \<Rightarrow> string \<Rightarrow> 's \<Rightarrow> error option \<times> 's"

text \<open>The calls a driver has made on its store, in order, each with its arguments.\<close>

datatype store_call =
    CallGetFrameworkID string
  | CallGetMesosStreamID string
  | CallSetMesosStreamID string string

record 's world =
  db :: 's
  calls :: "store_call list"
  logged :: "log_entry list"
  os_Hostname :: "error + string"

definition logf :: "level \<Rightarrow> string \<Rightarrow> 's world \<Rightarrow> 's world" where
  "logf l m w = w\<lparr>logged := logged w @ [(l, m)]\<rparr>"

subsection \<open>Configuration and protobuf messages\<close>

text \<open>
  Modelled from the spec: the declaration of \<open>FrameworkConfig\<close> and \<open>Config\<close> is not among the
  sources; the spec's configuration is \<open>framework: {name, user, principal, role?,
  failoverTimeout, capabilities: {gpu, taskKilling, partitionAware, revocable}}\<close> and
  \<open>transport: {encoding, secretPath?}\<close>, and the fields are named as the driver reads them.
  \<open>FailoverTimeout\<close> is a \<open>float64\<close> that is only copied: it is its 64-bit pattern. The
  configuration pointers are taken to be non-nil.
\<close>

type_synonym float64 = "64 word"

record FrameworkConfig =
  User :: string
  Name :: string
  Role :: string
  Principal :: string
  FailoverTimeout :: float64
  GPUSupported :: bool
  TaskKillingStateSupported :: bool
  PartitionAwareSupported :: bool
  RevocableResourcesSupported :: bool

record Config =
  Framework :: FrameworkConfig
  Encoding :: string

text \<open>
  Modelled from the spec: the generated protobuf types \<open>mesos.FrameworkID\<close>,
  \<open>mesos.FrameworkInfo\<close>, \<open>mesos.FrameworkInfo_Capability\<close> and \<open>sched.Call\<close> are not among
  the sources. The spec's FrameworkIdentity is \<open>{name, principal, role?, user, failoverTimeout,
  capabilities, checkpoint}\<close> with a \<open>frameworkID\<close> that is an opaque string, and its outbound
  calls are \<open>SUBSCRIBE\<close>, \<open>ACCEPT\<close>, \<open>DECLINE\<close>, \<open>KILL\<close>, \<open>RECONCILE\<close>, \<open>ACKNOWLEDGE\<close> and
  \<open>TEARDOWN\<close>. Every field is optional (a pointer in Go), and the fields are those the driver
  assigns.
\<close>

record FrameworkID =
  Value :: "string option"

text \<open>
  Modelled from the spec: the generated getter \<open>GetValue\<close> is not among the sources; the
  spec's "storage returns no frameworkID" covers the nil pointer and the unset value, for
  both of which the getter gives the empty string.
\<close>

fun GetValue :: "FrameworkID option \<Rightarrow> string" where
  "GetValue None = []"
| "GetValue (Some m) = (case Value m of None \<Rightarrow> [] | Some v \<Rightarrow> v)"

datatype Capability_Type =
  GPU_RESOURCES | TASK_KILLING_STATE | PARTITION_AWARE | REVOCABLE_RESOURCES

record FrameworkInfo_Capability =
  cap_Type :: "Capability_Type option"

record FrameworkInfo =
  info_User :: "string option"
  info_Name :: "string option"
  info_Id :: "FrameworkID option"
  info_FailoverTimeout :: "float64 option"
  info_Checkpoint :: "bool option"
  info_Role :: "string option"
  info_Hostname :: "string option"
  info_Principal :: "string option"
  info_Capabilities :: "FrameworkInfo_Capability list"

datatype Call_Type =
  SUBSCRIBE | TEARDOWN | ACCEPT | DECLINE | KILL | ACKNOWLEDGE | RECONCILE

record Call_Subscribe =
  sub_FrameworkInfo :: "FrameworkInfo option"

record Call =
  FrameworkId :: "FrameworkID option"
  Type :: "Call_Type option"
  Subscribe :: "Call_Subscribe option"

subsection \<open>The driver\<close>

definition ServiceName :: string where
  "ServiceName = ''Scheduler''"

definition serviceSchema :: string where
  "serviceSchema = ''http''"

definition servicePath :: string where
  "servicePath = ''/api/v1/scheduler''"

definition pelotonFrameworkID :: string where
  "pelotonFrameworkID = ''3dcc744f-016c-6579-9b82-6325424502d2-9999''"

text \<open>
  \<open>http.Header\<close> is a Go map from a key to its values. The loop over \<open>defaultHeaders\<close> visits
  the entries in an order Go leaves open; the list gives the order of one run.
\<close>

type_synonym Header = "(string \<times> string list) list"

record ('s, 'c) schedulerDriver =
  store :: "('s, 'c) FrameworkInfoStore"
  frameworkID :: "FrameworkID option"
  mesosStreamID :: string
  cfg :: FrameworkConfig
  encoding :: string
  defaultHeaders :: Header

text \<open>
  \<open>InitSchedulerDriver\<close> makes the driver; the package-level variable \<open>instance\<close> that also
  holds it, and \<open>GetSchedulerDriver\<close> that reads it, are left out: the driver is passed on.
\<close>

definition InitSchedulerDriver ::
  "Config \<Rightarrow> ('s, 'c) FrameworkInfoStore \<Rightarrow> Header \<Rightarrow> ('s, 'c) schedulerDriver" where
  "InitSchedulerDriver config st hdrs =
     \<lparr>store = st, frameworkID = None, mesosStreamID = [], cfg = Framework config,
      encoding = Encoding config, defaultHeaders = hdrs\<rparr>"

text \<open>
  \<open>GetFrameworkID\<close>: the cached ID if there is one; else one read of the store, cached only
  when it gives a non-empty value. The ID is a value here; in Go the caller gets the pointer
  the driver keeps, and nothing in the package writes through it.
\<close>

definition GetFrameworkID ::
  "'c \<Rightarrow> ('s, 'c) schedulerDriver \<Rightarrow> 's world \<Rightarrow>
     FrameworkID option \<times> ('s, 'c) schedulerDriver \<times> 's world" where
  "GetFrameworkID ctx d w =
     (case frameworkID d of
        Some f \<Rightarrow> (Some f, d, w)
      | None \<Rightarrow>
          (case store_GetFrameworkID (store d) ctx (Name (cfg d)) (db w) of
             (res, db') \<Rightarrow>
               (let w1 = w\<lparr>db := db', calls := calls w @ [CallGetFrameworkID (Name (cfg d))]\<rparr>
                in case res of
                     Inl err \<Rightarrow>
                       (None, d,
                        logf ErrorLevel ''Failed to GetframeworkID from db for framework'' w1)
                   | Inr frameworkIDVal \<Rightarrow>
                       if frameworkIDVal = []
                       then (None, d, logf ErrorLevel ''GetframeworkID from db is empty'' w1)
                       else (let d' = d\<lparr>frameworkID := Some \<lparr>Value = Some frameworkIDVal\<rparr>\<rparr>
                             in (frameworkID d', d',
                                 logf DebugLevel ''Loaded frameworkID'' w1)))))"

definition GetMesosStreamID ::
  "'c \<Rightarrow> ('s, 'c) schedulerDriver \<Rightarrow> 's world \<Rightarrow>
     string \<times> ('s, 'c) schedulerDriver \<times> 's world" where
  "GetMesosStreamID ctx d w =
     (case store_GetMesosStreamID (store d) ctx (Name (cfg d)) (db w) of
        (res, db') \<Rightarrow>
          (let w1 = w\<lparr>db := db', calls := calls w @ [CallGetMesosStreamID (Name (cfg d))]\<rparr>
           in case res of
                Inl err \<Rightarrow> ([], d, logf ErrorLevel ''Failed to GetmesosStreamID from db'' w1)
              | Inr sid \<Rightarrow>
                  (sid, d\<lparr>mesosStreamID := sid\<rparr>,
                   logf DebugLevel ''Loaded Mesos stream id'' w1)))"

definition Name_driver :: "('s, 'c) schedulerDriver \<Rightarrow> string" where
  "Name_driver d = ServiceName"

record URL =
  Scheme :: string
  Host :: string
  Path :: string

definition Endpoint :: "('s, 'c) schedulerDriver \<Rightarrow> URL" where
  "Endpoint d = \<lparr>Scheme = serviceSchema, Host = [], Path = servicePath\<rparr>"

text \<open>
  Modelled from the spec: \<open>util.PtrPrintf\<close> is not among the sources. It is called on the
  constant alone, with no arguments to format, and the spec's "the fixed default is used"
  makes its result that text.
\<close>

definition PtrPrintf :: "string \<Rightarrow> string option" where
  "PtrPrintf format = Some format"

definition capability :: "Capability_Type \<Rightarrow> FrameworkInfo_Capability" where
  "capability t = \<lparr>cap_Type = Some t\<rparr>"

text \<open>
  \<open>prepareSubscribe\<close>. In Go \<open>msg.Subscribe.FrameworkInfo\<close> points to \<open>info\<close>, so the
  assignments to \<open>info.Id\<close> and \<open>info.Role\<close> made after \<open>msg\<close> is built show in the message;
  here the message is built from the finished \<open>info\<close>.
\<close>

definition prepareSubscribe ::
  "'c \<Rightarrow> ('s, 'c) schedulerDriver \<Rightarrow> 's world \<Rightarrow>
     (error + Call) \<times> ('s, 'c) schedulerDriver \<times> 's world" where
  "prepareSubscribe ctx d w0 =
     (let (capabilities, w) = ([], w0);
          (capabilities, w) =
            (if GPUSupported (cfg d)
             then (capabilities @ [capability GPU_RESOURCES],
                   logf InfoLevel ''GPU capability is supported'' w)
             else (capabilities, w));
          (capabilities, w) =
            (if TaskKillingStateSupported (cfg d)
             then (capabilities @ [capability TASK_KILLING_STATE],
                   logf InfoLevel ''Task_Killing_State capability is supported'' w)
             else (capabilities, w));
          (capabilities, w) =
            (if PartitionAwareSupported (cfg d)
             then (capabilities @ [capability PARTITION_AWARE],
                   logf InfoLevel ''Partition Aware capability is supported'' w)
             else (capabilities, w));
          (capabilities, w) =
            (if RevocableResourcesSupported (cfg d)
             then (capabilities @ [capability REVOCABLE_RESOURCES],
                   logf InfoLevel ''Revocable resources capability is supported'' w)
             else (capabilities, w))
      in case os_Hostname w of
           Inl err \<Rightarrow>
             (Inl (errors_Wrap err ''Failed to get host name''), d,
              logf ErrorLevel ''Failed to get host name'' w)
         | Inr host \<Rightarrow>
             (let checkpoint = True;
                  info = \<lparr>info_User = Some (User (cfg d)),
                          info_Name = Some (Name (cfg d)),
                          info_Id = None,
                          info_FailoverTimeout = Some (FailoverTimeout (cfg d)),
                          info_Checkpoint = Some checkpoint,
                          info_Role = None,
                          info_Hostname = Some host,
                          info_Principal = Some (Principal (cfg d)),
                          info_Capabilities = capabilities\<rparr>;
                  (fid, d, w) = GetFrameworkID ctx d w;
                  v = GetValue fid;
                  (fid, w) =
                    (if length v = 0 then (Some \<lparr>Value = PtrPrintf pelotonFrameworkID\<rparr>, w)
                     else if v \<noteq> pelotonFrameworkID
                     then (fid, logf WarnLevel ''Framework id is not consistent'' w)
                     else (fid, w));
                  callType = SUBSCRIBE;
                  info = info\<lparr>info_Id := fid\<rparr>;
                  w = logf InfoLevel ''Reregister to Mesos master with previous framework ID'' w;
                  info = (if Role (cfg d) \<noteq> [] then info\<lparr>info_Role := Some (Role (cfg d))\<rparr>
                          else info);
                  msg = \<lparr>FrameworkId = fid, Type = Some callType,
                         Subscribe = Some \<lparr>sub_FrameworkInfo = Some info\<rparr>\<rparr>
              in (Inr msg, d, w)))"

text \<open>
  For the proofs: \<open>prepareSubscribe\<close> from the call of \<open>os.Hostname\<close> on (the source's lines
  209 to 260), with the capabilities collected before it as an argument.
\<close>

definition prepareSubscribe_rest ::
  "FrameworkInfo_Capability list \<Rightarrow> 'c \<Rightarrow> ('s, 'c) schedulerDriver \<Rightarrow> 's world \<Rightarrow>
     (error + Call) \<times> ('s, 'c) schedulerDriver \<times> 's world" where
  "prepareSubscribe_rest capabilities ctx d w =
     (case os_Hostname w of
           Inl err \<Rightarrow>
             (Inl (errors_Wrap err ''Failed to get host name''), d,
              logf ErrorLevel ''Failed to get host name'' w)
         | Inr host \<Rightarrow>
             (let checkpoint = True;
                  info = \<lparr>info_User = Some (User (cfg d)),
                          info_Name = Some (Name (cfg d)),
                          info_Id = None,
                          info_FailoverTimeout = Some (FailoverTimeout (cfg d)),
                          info_Checkpoint = Some checkpoint,
                          info_Role = None,
                          info_Hostname = Some host,
                          info_Principal = Some (Principal (cfg d)),
                          info_Capabilities = capabilities\<rparr>;
                  (fid, d, w) = GetFrameworkID ctx d w;
                  v = GetValue fid;
                  (fid, w) =
                    (if length v = 0 then (Some \<lparr>Value = PtrPrintf pelotonFrameworkID\<rparr>, w)
                     else if v \<noteq> pelotonFrameworkID
                     then (fid, logf WarnLevel ''Framework id is not consistent'' w)
                     else (fid, w));
                  callType = SUBSCRIBE;
                  info = info\<lparr>info_Id := fid\<rparr>;
                  w = logf InfoLevel ''Reregister to Mesos master with previous framework ID'' w;
                  info = (if Role (cfg d) \<noteq> [] then info\<lparr>info_Role := Some (Role (cfg d))\<rparr>
                          else info);
                  msg = \<lparr>FrameworkId = fid, Type = Some callType,
                         Subscribe = Some \<lparr>sub_FrameworkInfo = Some info\<rparr>\<rparr>
              in (Inr msg, d, w)))"

text \<open>\<open>PostSubscribe\<close> writes the stream ID to the store; a failed write is only logged.\<close>

definition PostSubscribe ::
  "'c \<Rightarrow> string \<Rightarrow> ('s, 'c) schedulerDriver \<Rightarrow> 's world \<Rightarrow>
     ('s, 'c) schedulerDriver \<times> 's world" where
  "PostSubscribe ctx mesosStreamID' d w =
     (case store_SetMesosStreamID (store d) ctx (Name (cfg d)) mesosStreamID' (db w) of
        (err, db') \<Rightarrow>
          (let w1 = w\<lparr>db := db',
                      calls := calls w @ [CallSetMesosStreamID (Name (cfg d)) mesosStreamID']\<rparr>
           in case err of
                Some e \<Rightarrow> (d, logf ErrorLevel ''Failed to save Mesos stream ID'' w1)
              | None \<Rightarrow> (d, w1)))"

definition GetContentEncoding :: "('s, 'c) schedulerDriver \<Rightarrow> string" where
  "GetContentEncoding d = encoding d"

subsection \<open>HTTP headers and requests\<close>

text \<open>
  \<open>textproto.CanonicalMIMEHeaderKey\<close> of the Go library: a key with a byte that is not a
  token byte is left as it is; otherwise the first letter and every letter after a hyphen are
  made upper case and all other letters lower case.
\<close>

definition validHeaderFieldByte :: "char \<Rightarrow> bool" where
  "validHeaderFieldByte c =
     (let n = (of_char c :: nat)
      in (0x30 \<le> n \<and> n \<le> 0x39) \<or> (0x41 \<le> n \<and> n \<le> 0x5A) \<or> (0x61 \<le> n \<and> n \<le> 0x7A) \<or>
         n \<in> set [0x21, 0x23, 0x24, 0x25, 0x26, 0x27, 0x2A, 0x2B, 0x2D, 0x2E,
                    0x5E, 0x5F, 0x60, 0x7C, 0x7E])"

fun canonicalMIMEHeaderKey :: "bool \<Rightarrow> string \<Rightarrow> string" where
  "canonicalMIMEHeaderKey upper [] = []"
| "canonicalMIMEHeaderKey upper (c # cs) =
     (let n = (of_char c :: nat);
          c' = (if upper \<and> 0x61 \<le> n \<and> n \<le> 0x7A then char_of (n - 0x20)
                else if \<not> upper \<and> 0x41 \<le> n \<and> n \<le> 0x5A then char_of (n + 0x20)
                else c)
      in c' # canonicalMIMEHeaderKey (c' = CHR ''-'') cs)"

definition CanonicalMIMEHeaderKey :: "string \<Rightarrow> string" where
  "CanonicalMIMEHeaderKey s =
     (if list_all validHeaderFieldByte s then canonicalMIMEHeaderKey True s else s)"

definition Header_Set :: "string \<Rightarrow> string \<Rightarrow> Header \<Rightarrow> Header" where
  "Header_Set key v h = AList.update (CanonicalMIMEHeaderKey key) [v] h"

definition Header_Add :: "string \<Rightarrow> string \<Rightarrow> Header \<Rightarrow> Header" where
  "Header_Add key v h =
     (let k = CanonicalMIMEHeaderKey key
      in AList.update k ((case map_of h k of None \<Rightarrow> [] | Some vs \<Rightarrow> vs) @ [v]) h)"

definition Header_Get :: "Header \<Rightarrow> string \<Rightarrow> string" where
  "Header_Get h key =
     (case map_of h (CanonicalMIMEHeaderKey key) of
        None \<Rightarrow> [] | Some [] \<Rightarrow> [] | Some (v # vs) \<Rightarrow> v)"

record Request =
  Method :: string
  req_URL :: URL
  Body :: string
  req_Header :: Header

text \<open>
  What the driver calls and the sources do not hold. \<open>MarshalPbMessage\<close> is
  \<open>mpb.MarshalPbMessage\<close>, which gives the body text for a call and an encoding or fails.
  \<open>url_Parse\<close> stands for the parse that \<open>http.NewRequest\<close> makes of the text of the URL: it
  gives the error, if any. Both are parameters of the model.
\<close>

record externals =
  MarshalPbMessage :: "Call \<Rightarrow> string \<Rightarrow> error + string"
  url_Parse :: "URL \<Rightarrow> error option"

text \<open>
  \<open>removeEmptyPort\<close> of \<open>net/http\<close>, with \<open>hasPort\<close>, \<open>strings.LastIndex\<close> for one byte and
  \<open>strings.TrimSuffix\<close>: a host that ends in a colon with no port after it loses the colon.
\<close>

fun lastIndexFrom :: "string \<Rightarrow> char \<Rightarrow> int \<Rightarrow> int \<Rightarrow> int" where
  "lastIndexFrom [] c i found = found"
| "lastIndexFrom (x # xs) c i found = lastIndexFrom xs c (i + 1) (if x = c then i else found)"

definition LastIndexByte :: "string \<Rightarrow> char \<Rightarrow> int" where
  "LastIndexByte s c = lastIndexFrom s c 0 (- 1)"

definition hasPort :: "string \<Rightarrow> bool" where
  "hasPort s = (LastIndexByte s (CHR '']'') < LastIndexByte s (CHR '':''))"

definition TrimSuffix :: "string \<Rightarrow> string \<Rightarrow> string" where
  "TrimSuffix s suffix =
     (if length suffix \<le> length s \<and> drop (length s - length suffix) s = suffix
      then take (length s - length suffix) s else s)"

definition removeEmptyPort :: "string \<Rightarrow> string" where
  "removeEmptyPort host = (if hasPort host then TrimSuffix host '':'' else host)"

text \<open>
  \<open>http.NewRequest\<close> of the Go library, given the URL itself where Go passes its text
  (\<open>url.String()\<close>) and parses it back: where the parse succeeds the request has the method
  and the body it was given, the scheme and the path of the URL, its host with an empty port
  removed, and an empty header.
\<close>

definition http_NewRequest :: "externals \<Rightarrow> string \<Rightarrow> URL \<Rightarrow> string \<Rightarrow> error + Request" where
  "http_NewRequest ext method u body =
     (case url_Parse ext u of
        Some err \<Rightarrow> Inl err
      | None \<Rightarrow>
          Inr \<lparr>Method = method, req_URL = u\<lparr>Host := removeEmptyPort (Host u)\<rparr>, Body = body,
               req_Header = []\<rparr>)"

definition PrepareSubscribeRequest ::
  "externals \<Rightarrow> 'c \<Rightarrow> string \<Rightarrow> ('s, 'c) schedulerDriver \<Rightarrow> 's world \<Rightarrow>
     (error + Request) \<times> ('s, 'c) schedulerDriver \<times> 's world" where
  "PrepareSubscribeRequest ext ctx mesosMasterHostPort d w =
     (if length mesosMasterHostPort = 0
      then (Inl (errors_New ''No active leader detected''), d, w)
      else case prepareSubscribe ctx d w of
        (Inl err, d, w) \<Rightarrow> (Inl (errors_Wrap err ''Failed prepareSubscribe''), d, w)
      | (Inr subscribe, d, w) \<Rightarrow>
          (case MarshalPbMessage ext subscribe (encoding d) of
             Inl err \<Rightarrow> (Inl (errors_Wrap err ''Failed to marshal subscribe call''), d, w)
           | Inr body \<Rightarrow>
               (let url = (Endpoint d)\<lparr>Host := mesosMasterHostPort\<rparr>
                in case http_NewRequest ext ''POST'' url body of
                     Inl err \<Rightarrow> (Inl (errors_Wrap err ''Failed HTTP request''), d, w)
                   | Inr req \<Rightarrow>
                       (let hdr = fold (\<lambda>(k, v) h. fold (\<lambda>vv h. Header_Set k vv h) v h)
                                    (defaultHeaders d) (req_Header req);
                            hdr = Header_Set ''Content-Type'' (''application/'' @ encoding d) hdr;
                            hdr = Header_Set ''Accept'' (''application/'' @ encoding d) hdr
                        in (Inr (req\<lparr>req_Header := hdr\<rparr>), d, w)))))"

subsection \<open>Histories of a driver\<close>

text \<open>
  A history is a sequence of calls of the driver's methods, mixed with steps of the rest of
  the system, which may change the world in any way (the store's contents among it).
  \<open>EventDataType\<close> returns a Go type and is left out.
\<close>

datatype ('s, 'c) op =
    DoGetFrameworkID 'c
  | DoGetMesosStreamID 'c
  | DoName
  | DoEndpoint
  | DoPrepareSubscribe 'c
  | DoPrepareSubscribeRequest 'c string
  | DoPostSubscribe 'c string
  | DoGetContentEncoding
  | Outside "'s world \<Rightarrow> 's world"

datatype result =
    RFrameworkID "FrameworkID option"
  | RString string
  | RURL URL
  | RCall "error + Call"
  | RRequest "error + Request"
  | RNone

fun step ::
  "externals \<Rightarrow> ('s, 'c) op \<Rightarrow> ('s, 'c) schedulerDriver \<times> 's world \<Rightarrow>
     result \<times> ('s, 'c) schedulerDriver \<times> 's world" where
  "step ext (DoGetFrameworkID ctx) (d, w) =
     (case GetFrameworkID ctx d w of (r, d', w') \<Rightarrow> (RFrameworkID r, d', w'))"
| "step ext (DoGetMesosStreamID ctx) (d, w) =
     (case GetMesosStreamID ctx d w of (r, d', w') \<Rightarrow> (RString r, d', w'))"
| "step ext DoName (d, w) = (RString (Name_driver d), d, w)"
| "step ext DoEndpoint (d, w) = (RURL (Endpoint d), d, w)"
| "step ext (DoPrepareSubscribe ctx) (d, w) =
     (case prepareSubscribe ctx d w of (r, d', w') \<Rightarrow> (RCall r, d', w'))"
| "step ext (DoPrepareSubscribeRequest ctx hp) (d, w) =
     (case PrepareSubscribeRequest ext ctx hp d w of (r, d', w') \<Rightarrow> (RRequest r, d', w'))"
| "step ext (DoPostSubscribe ctx sid) (d, w) =
     (case PostSubscribe ctx sid d w of (d', w') \<Rightarrow> (RNone, d', w'))"
| "step ext DoGetContentEncoding (d, w) = (RString (GetContentEncoding d), d, w)"
| "step ext (Outside f) (d, w) = (RNone, d, f w)"

fun run ::
  "externals \<Rightarrow> ('s, 'c) op list \<Rightarrow> ('s, 'c) schedulerDriver \<times> 's world \<Rightarrow>
     result list \<times> ('s, 'c) schedulerDriver \<times> 's world" where
  "run ext [] (d, w) = ([], d, w)"
| "run ext (x # xs) (d, w) =
     (case step ext x (d, w) of
        (r, d', w') \<Rightarrow> (case run ext xs (d', w') of (rs, d'', w'') \<Rightarrow> (r # rs, d'', w'')))"

text \<open>
  The driver with the assignment \<open>d.mesosStreamID = id\<close> taken out of \<open>GetMesosStreamID\<close>,
  and nothing else changed.
\<close>

definition GetMesosStreamID_nocache ::
  "'c \<Rightarrow> ('s, 'c) schedulerDriver \<Rightarrow> 's world \<Rightarrow>
     string \<times> ('s, 'c) schedulerDriver \<times> 's world" where
  "GetMesosStreamID_nocache ctx d w =
     (case store_GetMesosStreamID (store d) ctx (Name (cfg d)) (db w) of
        (res, db') \<Rightarrow>
          (let w1 = w\<lparr>db := db', calls := calls w @ [CallGetMesosStreamID (Name (cfg d))]\<rparr>
           in case res of
                Inl err \<Rightarrow> ([], d, logf ErrorLevel ''Failed to GetmesosStreamID from db'' w1)
              | Inr sid \<Rightarrow> (sid, d, logf DebugLevel ''Loaded Mesos stream id'' w1)))"

fun step_nocache ::
  "externals \<Rightarrow> ('s, 'c) op \<Rightarrow> ('s, 'c) schedulerDriver \<times> 's world \<Rightarrow>
     result \<times> ('s, 'c) schedulerDriver \<times> 's world" where
  "step_nocache ext (DoGetMesosStreamID ctx) (d, w) =
     (case GetMesosStreamID_nocache ctx d w of (r, d', w') \<Rightarrow> (RString r, d', w'))"
| "step_nocache ext x (d, w) = step ext x (d, w)"

fun run_nocache ::
  "externals \<Rightarrow> ('s, 'c) op list \<Rightarrow> ('s, 'c) schedulerDriver \<times> 's world \<Rightarrow>
     result list \<times> ('s, 'c) schedulerDriver \<times> 's world" where
  "run_nocache ext [] (d, w) = ([], d, w)"
| "run_nocache ext (x # xs) (d, w) =
     (case step_nocache ext x (d, w) of
        (r, d', w') \<Rightarrow>
          (case run_nocache ext xs (d', w') of (rs, d'', w'') \<Rightarrow> (r # rs, d'', w'')))"

subsection \<open>Strings of the Go library\<close>

text \<open>
  \<open>utf8.DecodeRuneInString\<close>: the first code point of a byte string and the number of bytes
  it takes; a byte that starts no well-formed UTF-8 sequence is \<open>RuneError\<close> of width 1.
\<close>

definition RuneError :: nat where
  "RuneError = 0xFFFD"

definition RuneSelf :: nat where
  "RuneSelf = 0x80"

definition UTFMax :: int where
  "UTFMax = 4"

definition DecodeRuneInString :: "string \<Rightarrow> nat \<times> nat" where
  "DecodeRuneInString s =
     (if length s < 1 then (RuneError, 0)
      else let s0 = (of_char (s ! 0) :: nat)
        in if s0 < RuneSelf then (s0, 1)
           else if s0 < 0xC2 \<or> 0xF5 \<le> s0 then (RuneError, 1)
           else let sz = (if s0 < 0xE0 then 2 else if s0 < 0xF0 then 3 else 4) :: nat;
                    lo = (if s0 = 0xE0 then 0xA0 else if s0 = 0xF0 then 0x90 else 0x80) :: nat;
                    hi = (if s0 = 0xED then 0x9F else if s0 = 0xF4 then 0x8F else 0xBF) :: nat
             in if length s < sz then (RuneError, 1)
                else let s1 = (of_char (s ! 1) :: nat)
                  in if s1 < lo \<or> hi < s1 then (RuneError, 1)
                     else if sz \<le> 2 then ((s0 mod 0x20) * 0x40 + s1 mod 0x40, 2)
                     else let s2 = (of_char (s ! 2) :: nat)
                       in if s2 < 0x80 \<or> 0xBF < s2 then (RuneError, 1)
                          else if sz \<le> 3
                          then ((s0 mod 0x10) * 0x1000 + (s1 mod 0x40) * 0x40 + s2 mod 0x40, 3)
                          else let s3 = (of_char (s ! 3) :: nat)
                            in if s3 < 0x80 \<or> 0xBF < s3 then (RuneError, 1)
                               else ((s0 mod 0x08) * 0x40000 + (s1 mod 0x40) * 0x1000 +
                                     (s2 mod 0x40) * 0x40 + s3 mod 0x40, 4))"

definition RuneStart :: "char \<Rightarrow> bool" where
  "RuneStart b = (\<not> (0x80 \<le> (of_char b :: nat) \<and> (of_char b :: nat) < 0xC0))"

text \<open>
  The backward scan of \<open>utf8.DecodeLastRuneInString\<close>:
  \<^verbatim>\<open>for start--; start >= lim; start-- { if RuneStart(s[start]) { break } }\<close>,
  entered with \<open>start\<close> already decremented.
\<close>

function lastStart :: "string \<Rightarrow> int \<Rightarrow> int \<Rightarrow> int" where
  "lastStart s lim start =
     (if lim \<le> start
      then (if RuneStart (s ! nat start) then start else lastStart s lim (start - 1))
      else start)"
  by pat_completeness auto
termination
  by (relation "measure (\<lambda>(s, lim, start). nat (start - lim + 1))") auto

declare lastStart.simps [simp del]

definition DecodeLastRuneInString :: "string \<Rightarrow> nat \<times> nat" where
  "DecodeLastRuneInString s =
     (let n = int (length s)
      in if n = 0 then (RuneError, 0)
         else let start = n - 1;
                  r = (of_char (s ! nat start) :: nat)
           in if r < RuneSelf then (r, 1)
              else let lim = (if n - UTFMax < 0 then 0 else n - UTFMax);
                       start = lastStart s lim (start - 1);
                       start = (if start < 0 then 0 else start);
                       (r, size) = DecodeRuneInString (drop (nat start) s)
                in if start + int size \<noteq> n then (RuneError, 1) else (r, size))"

text \<open>\<open>unicode.IsSpace\<close>: the code points with the Unicode property White_Space.\<close>

definition IsSpace :: "nat \<Rightarrow> bool" where
  "IsSpace r =
     (if r \<le> 0xFF then r \<in> set [0x09, 0x0A, 0x0B, 0x0C, 0x0D, 0x20, 0x85, 0xA0]
      else r = 0x1680 \<or> (0x2000 \<le> r \<and> r \<le> 0x200A) \<or> r = 0x2028 \<or> r = 0x2029 \<or>
           r = 0x202F \<or> r = 0x205F \<or> r = 0x3000)"

text \<open>
  \<open>strings.TrimLeftFunc\<close> and \<open>strings.TrimRightFunc\<close>: drop code points from the start (from
  the end) as long as the predicate holds. \<open>strings.TrimSpace\<close> is both with \<open>IsSpace\<close>; its
  loops over ASCII bytes are a shortcut that gives the same string.
\<close>

function TrimLeftFunc :: "(nat \<Rightarrow> bool) \<Rightarrow> string \<Rightarrow> string" where
  "TrimLeftFunc f s =
     (if s = [] then []
      else if f (fst (DecodeRuneInString s))
      then TrimLeftFunc f (drop (snd (DecodeRuneInString s)) s)
      else s)"
  by pat_completeness auto
termination
proof (relation "measure (\<lambda>(f, s). length s)")
  show "wf (measure (\<lambda>(f, s). length s))" by simp
next
  fix f :: "nat \<Rightarrow> bool" and s :: string
  assume "s \<noteq> []"
  then have "0 < snd (DecodeRuneInString s)"
    by (simp add: DecodeRuneInString_def Let_def)
  with \<open>s \<noteq> []\<close> show "((f, drop (snd (DecodeRuneInString s)) s), (f, s))
      \<in> measure (\<lambda>(f, s). length s)"
    by simp
qed

declare TrimLeftFunc.simps [simp del]

function TrimRightFunc :: "(nat \<Rightarrow> bool) \<Rightarrow> string \<Rightarrow> string" where
  "TrimRightFunc f s =
     (if s = [] then []
      else if f (fst (DecodeLastRuneInString s))
      then TrimRightFunc f (take (length s - snd (DecodeLastRuneInString s)) s)
      else s)"
  by pat_completeness auto
termination
proof (relation "measure (\<lambda>(f, s). length s)")
  show "wf (measure (\<lambda>(f, s). length s))" by simp
next
  fix f :: "nat \<Rightarrow> bool" and s :: string
  assume "s \<noteq> []"
  have le: "lastStart t lim st \<le> st" for t lim st
  proof (induction t lim st rule: lastStart.induct)
    case (1 t lim st)
    show ?case using 1 by (subst lastStart.simps) auto
  qed
  have "0 < snd (DecodeLastRuneInString s)"
    using \<open>s \<noteq> []\<close>
      le [of s "if int (length s) - UTFMax < 0 then 0 else int (length s) - UTFMax"
             "int (length s) - 1 - 1"]
    by (auto simp add: DecodeLastRuneInString_def Let_def split: prod.splits if_splits)
  with \<open>s \<noteq> []\<close> show "((f, take (length s - snd (DecodeLastRuneInString s)) s), (f, s))
      \<in> measure (\<lambda>(f, s). length s)"
    by simp
qed

declare TrimRightFunc.simps [simp del]

definition TrimSpace :: "string \<Rightarrow> string" where
  "TrimSpace s = TrimRightFunc IsSpace (TrimLeftFunc IsSpace s)"

text \<open>
  \<open>strings.Index\<close>: where the separator first occurs. \<open>strings.Split\<close>: with an empty
  separator the string is cut after each UTF-8 sequence (\<open>explode\<close>); otherwise it is cut at
  each occurrence of the separator, found from the left after the one before. \<open>explode\<close> is
  that of the current Go library, which cuts an ill-formed byte off as it is; older releases
  put the encoding of U+FFFD in its place, in every piece but the last.
\<close>

fun Index :: "string \<Rightarrow> string \<Rightarrow> nat option" where
  "Index [] sep = (if sep = [] then Some 0 else None)"
| "Index (c # cs) sep =
     (if take (length sep) (c # cs) = sep then Some 0 else map_option Suc (Index cs sep))"

function explode :: "string \<Rightarrow> string list" where
  "explode s =
     (if s = [] then []
      else take (snd (DecodeRuneInString s)) s # explode (drop (snd (DecodeRuneInString s)) s))"
  by pat_completeness auto
termination
proof (relation "measure length")
  show "wf (measure length)" by simp
next
  fix s :: string
  assume "s \<noteq> []"
  then have "0 < snd (DecodeRuneInString s)"
    by (simp add: DecodeRuneInString_def Let_def)
  with \<open>s \<noteq> []\<close> show "(drop (snd (DecodeRuneInString s)) s, s) \<in> measure length"
    by simp
qed

declare explode.simps [simp del]

function genSplit :: "string \<Rightarrow> string \<Rightarrow> string list" where
  "genSplit s sep =
     (if sep = [] then explode s
      else case Index s sep of
             None \<Rightarrow> [s]
           | Some m \<Rightarrow> take m s # genSplit (drop (m + length sep) s) sep)"
  by pat_completeness auto
termination
proof (relation "measure (\<lambda>(s, sep). length s)")
  show "wf (measure (\<lambda>(s, sep). length s))" by simp
next
  fix s sep :: string and m :: nat
  assume "sep \<noteq> []" and "Index s sep = Some m"
  then have "s \<noteq> []" by (cases s) auto
  with \<open>sep \<noteq> []\<close> show "((drop (m + length sep) s, sep), (s, sep))
      \<in> measure (\<lambda>(s, sep). length s)"
    by simp
qed

declare genSplit.simps [simp del]

definition Split :: "string \<Rightarrow> string \<Rightarrow> string list" where
  "Split s sep = genSplit s sep"

text \<open>
  \<open>base64.StdEncoding.EncodeToString\<close>: three bytes give four characters of the standard
  alphabet; a rest of one or two bytes is padded with \<open>=\<close>.
\<close>

definition encodeStd :: string where
  "encodeStd = ''ABCDEFGHIJKLMNOPQRSTUVWXYZabcdefghijklmnopqrstuvwxyz0123456789+/''"

fun EncodeToString :: "string \<Rightarrow> string" where
  "EncodeToString [] = []"
| "EncodeToString [a] =
     (let val = (of_char a :: nat) * 0x10000
      in [encodeStd ! (val div 0x40000 mod 0x40), encodeStd ! (val div 0x1000 mod 0x40),
          CHR ''='', CHR ''=''])"
| "EncodeToString [a, b] =
     (let val = (of_char a :: nat) * 0x10000 + of_char b * 0x100
      in [encodeStd ! (val div 0x40000 mod 0x40), encodeStd ! (val div 0x1000 mod 0x40),
          encodeStd ! (val div 0x40 mod 0x40), CHR ''=''])"
| "EncodeToString (a # b # c # rest) =
     (let val = (of_char a :: nat) * 0x10000 + of_char b * 0x100 + of_char c
      in [encodeStd ! (val div 0x40000 mod 0x40), encodeStd ! (val div 0x1000 mod 0x40),
          encodeStd ! (val div 0x40 mod 0x40), encodeStd ! (val mod 0x40)]
         @ EncodeToString rest)"

subsection \<open>The authorization header\<close>

text \<open>
  \<open>GetAuthHeader\<close>. \<open>ReadFile\<close> is \<open>ioutil.ReadFile\<close> on the file system the process runs on:
  the content of the file at a path, or the error.
\<close>

definition GetAuthHeader ::
  "(string \<Rightarrow> error + string) \<Rightarrow> Config \<Rightarrow> string \<Rightarrow> log_entry list \<Rightarrow>
     (error + Header) \<times> log_entry list" where
  "GetAuthHeader ReadFile config secretPath lg =
     (let header = [];
          username = Principal (Framework config)
      in if length username = 0
         then (Inr header, lg @ [(InfoLevel, ''No Mesos princpial is provided to framework'')])
         else if length secretPath = 0
         then (Inr header, lg @ [(InfoLevel, ''No secret file is provided to framework'')])
         else let lg = lg @ [(InfoLevel, ''Loading Mesos Authorization header from secret file'')]
           in case ReadFile secretPath of
                Inl err \<Rightarrow> (Inl err, lg)
              | Inr buf \<Rightarrow>
                  (let password = TrimSpace buf;
                       auth = username @ '':'' @ password;
                       basicAuth = EncodeToString auth;
                       header = Header_Add ''Authorization'' (''Basic '' @ basicAuth) header;
                       lg = lg @ [(InfoLevel, ''Mesos Authorization header loaded for principal'')]
                   in (Inr header, lg)))"

subsection \<open>Host lists of the command line\<close>

text \<open>
  Modelled from the spec: the package \<open>stringset\<close> is not among the sources, and the spec
  does not describe it. It is a set of strings by its use: \<open>New\<close> is empty, \<open>Add\<close> puts a
  member in, \<open>Contains\<close> tests membership, \<open>ToSlice\<close> lists the members, each once, in an
  order it does not promise. The members are kept in the order they came in; the caller sorts
  the slice, which makes the order immaterial.
\<close>

type_synonym stringset = "string list"

definition stringset_New :: stringset where
  "stringset_New = []"

definition Contains :: "stringset \<Rightarrow> string \<Rightarrow> bool" where
  "Contains hs x = (x \<in> set hs)"

definition Add :: "stringset \<Rightarrow> string \<Rightarrow> stringset" where
  "Add hs x = (if x \<in> set hs then hs else hs @ [x])"

definition ToSlice :: "stringset \<Rightarrow> string list" where
  "ToSlice hs = hs"

text \<open>
  The loop of \<open>ExtractHostnames\<close> over the pieces of the input, with the set built so far; it
  returns at the first piece that is empty once trimmed or is in the set already.
\<close>

fun extractLoop :: "stringset \<Rightarrow> string list \<Rightarrow> error + stringset" where
  "extractLoop hostSet [] = Inr hostSet"
| "extractLoop hostSet (h # rest) =
     (let host = TrimSpace h
      in if host = [] then Inl (Error ''Host cannot be empty'')
         else if Contains hostSet host
         then Inl (Error (''Invalid input. Duplicate entry for host '' @ host @ '' found''))
         else extractLoop (Add hostSet host) rest)"

text \<open>\<open>sort.Strings\<close> sorts by Go's order of strings, which compares byte by byte.\<close>

definition ExtractHostnames :: "string \<Rightarrow> string \<Rightarrow> error + string list" where
  "ExtractHostnames hosts hostSeparator =
     (case extractLoop stringset_New (Split hosts hostSeparator) of
        Inl err \<Rightarrow> Inl err
      | Inr hostSet \<Rightarrow> Inr (sort (ToSlice hostSet)))"

subsection \<open>A store and a configuration for the examples\<close>

text \<open>
  Modelled from the spec: the implementation of the store is not among the sources. The spec
  lays the persisted state out as \<open>framework: {name \<rightarrow> frameworkID, streamID}\<close> and takes the
  store to provide idempotent CRUD on it. Here each of the two is an association list keyed
  by the framework name; reading a name that has no entry is an error, and a write always
  succeeds.
\<close>

record kv =
  kv_frameworkID :: "(string \<times> string) list"
  kv_streamID :: "(string \<times> string) list"

definition kvStore :: "(kv, unit) FrameworkInfoStore" where
  "kvStore =
     \<lparr>store_GetFrameworkID = (\<lambda>ctx name s.
        (case map_of (kv_frameworkID s) name of
           None \<Rightarrow> Inl (Error ''not found'') | Some v \<Rightarrow> Inr v, s)),
      store_GetMesosStreamID = (\<lambda>ctx name s.
        (case map_of (kv_streamID s) name of
           None \<Rightarrow> Inl (Error ''not found'') | Some v \<Rightarrow> Inr v, s)),
      store_SetMesosStreamID = (\<lambda>ctx name v s.
        (None, s\<lparr>kv_streamID := AList.update name v (kv_streamID s)\<rparr>))\<rparr>"

definition exampleConfig :: Config where
  "exampleConfig =
     \<lparr>Framework =
        \<lparr>User = ''root'', Name = ''Peloton'', Role = ''peloton'', Principal = ''peloton'',
         FailoverTimeout = 0, GPUSupported = True, TaskKillingStateSupported = False,
         PartitionAwareSupported = True, RevocableResourcesSupported = False\<rparr>,
      Encoding = ''x-protobuf''\<rparr>"

definition exampleDriver :: "(kv, unit) schedulerDriver" where
  "exampleDriver = InitSchedulerDriver exampleConfig kvStore []"

definition exampleWorld :: "(string \<times> string) list \<Rightarrow> kv world" where
  "exampleWorld ids =
     \<lparr>db = \<lparr>kv_frameworkID = ids, kv_streamID = []\<rparr>, calls = [], logged = [],
      os_Hostname = Inr ''host1''\<rparr>"

text \<open>
  Modelled from the spec: \<open>mpb.MarshalPbMessage\<close> is not among the sources. The spec's
  transport is "binary or JSON protobuf selected by \<open>encoding\<close>", with the content types
  \<open>application/json\<close> and \<open>application/x-protobuf\<close>. The example marshaller takes these two
  encodings and refuses any other; its body text stands for the encoded message. The example
  parse of a URL accepts every URL.
\<close>

definition exampleExternals :: externals where
  "exampleExternals =
     \<lparr>MarshalPbMessage = (\<lambda>call enc.
        if enc = ''json'' \<or> enc = ''x-protobuf''
        then Inr (''SUBSCRIBE '' @ GetValue (FrameworkId call))
        else Inl (Error ''Unsupported contentType'')),
      url_Parse = (\<lambda>u. None)\<rparr>"

section \<open>Properties\<close>

subsection \<open>Reading the framework ID\<close>

lemma GetFrameworkID_cached:
  "frameworkID d = Some f \<Longrightarrow> GetFrameworkID ctx d w = (Some f, d, w)"
  by (simp add: GetFrameworkID_def)

lemma GetFrameworkID_logged:
  "fst (GetFrameworkID ctx d (w\<lparr>logged := l\<rparr>)) = fst (GetFrameworkID ctx d w)"
  by (simp add: GetFrameworkID_def Let_def logf_def split: option.splits prod.splits sum.splits)

lemma GetFrameworkID_frame:
  assumes "GetFrameworkID ctx d w = (r, d', w')"
  shows "cfg d' = cfg d" and "store d' = store d" and "encoding d' = encoding d"
    and "defaultHeaders d' = defaultHeaders d" and "mesosStreamID d' = mesosStreamID d"
    and "os_Hostname w' = os_Hostname w"
  using assms
  by (auto simp add: GetFrameworkID_def Let_def logf_def
      split: option.splits prod.splits sum.splits if_splits)

lemma GetFrameworkID_log_grows:
  assumes "GetFrameworkID ctx d w = (r, d', w')"
  shows "\<exists>l. logged w' = logged w @ l"
  using assms
  by (auto simp add: GetFrameworkID_def Let_def logf_def
      split: option.splits prod.splits sum.splits if_splits)

text \<open>
  What \<open>GetFrameworkID\<close> returns is what the driver holds afterwards; an ID the driver holds
  stays; and an ID the driver holds is never one with an empty value, if that was so before.
\<close>

lemma GetFrameworkID_keeps:
  assumes "GetFrameworkID ctx d w = (r, d', w')"
  shows "r = frameworkID d'"
    and "frameworkID d = Some f \<Longrightarrow> frameworkID d' = Some f"
    and "frameworkID d = None \<or> GetValue (frameworkID d) \<noteq> [] \<Longrightarrow>
         frameworkID d' = None \<or> GetValue (frameworkID d') \<noteq> []"
  using assms
  by (auto simp add: GetFrameworkID_def Let_def logf_def
      split: option.splits prod.splits sum.splits if_splits)

lemma GetFrameworkID_msid:
  "GetFrameworkID ctx (d\<lparr>mesosStreamID := x\<rparr>) w =
     (case GetFrameworkID ctx d w of (r, d', w') \<Rightarrow> (r, d'\<lparr>mesosStreamID := x\<rparr>, w'))"
  by (simp add: GetFrameworkID_def Let_def split: option.splits prod.splits sum.splits)

subsection \<open>The SUBSCRIBE call\<close>

text \<open>
  \<open>prepareSubscribe\<close> is its four steps over the capability flags, which give a list of
  capabilities and a run of log lines, and then the rest.
\<close>

lemma prepareSubscribe_split:
  "prepareSubscribe ctx d w =
     prepareSubscribe_rest
       ((if GPUSupported (cfg d) then [capability GPU_RESOURCES] else []) @
        (if TaskKillingStateSupported (cfg d) then [capability TASK_KILLING_STATE] else []) @
        (if PartitionAwareSupported (cfg d) then [capability PARTITION_AWARE] else []) @
        (if RevocableResourcesSupported (cfg d) then [capability REVOCABLE_RESOURCES] else []))
       ctx d
       (w\<lparr>logged := logged w @
          (if GPUSupported (cfg d) then [(InfoLevel, ''GPU capability is supported'')] else []) @
          (if TaskKillingStateSupported (cfg d)
           then [(InfoLevel, ''Task_Killing_State capability is supported'')] else []) @
          (if PartitionAwareSupported (cfg d)
           then [(InfoLevel, ''Partition Aware capability is supported'')] else []) @
          (if RevocableResourcesSupported (cfg d)
           then [(InfoLevel, ''Revocable resources capability is supported'')] else [])\<rparr>)"
  by (cases "GPUSupported (cfg d)"; cases "TaskKillingStateSupported (cfg d)";
      cases "PartitionAwareSupported (cfg d)"; cases "RevocableResourcesSupported (cfg d)")
     (simp_all add: prepareSubscribe_def prepareSubscribe_rest_def logf_def
        cong: sum.case_cong)

lemma prepareSubscribe_rest_Inl:
  "os_Hostname w = Inl err \<Longrightarrow>
   prepareSubscribe_rest caps ctx d w =
     (Inl (errors_Wrap err ''Failed to get host name''), d,
      logf ErrorLevel ''Failed to get host name'' w)"
  by (simp add: prepareSubscribe_rest_def)

lemma prepareSubscribe_rest_Inr:
  assumes "os_Hostname w = Inr host" and "GetFrameworkID ctx d w = (fid, d1, w1)"
  shows "prepareSubscribe_rest caps ctx d w =
     (Inr \<lparr>FrameworkId =
             (if GetValue fid = [] then Some \<lparr>Value = Some pelotonFrameworkID\<rparr> else fid),
           Type = Some SUBSCRIBE,
           Subscribe = Some \<lparr>sub_FrameworkInfo = Some
             \<lparr>info_User = Some (User (cfg d)),
              info_Name = Some (Name (cfg d)),
              info_Id =
                (if GetValue fid = [] then Some \<lparr>Value = Some pelotonFrameworkID\<rparr> else fid),
              info_FailoverTimeout = Some (FailoverTimeout (cfg d)),
              info_Checkpoint = Some True,
              info_Role = (if Role (cfg d) \<noteq> [] then Some (Role (cfg d)) else None),
              info_Hostname = Some host,
              info_Principal = Some (Principal (cfg d)),
              info_Capabilities = caps\<rparr>\<rparr>\<rparr>,
      d1,
      w1\<lparr>logged := logged w1 @
        (if GetValue fid \<noteq> [] \<and> GetValue fid \<noteq> pelotonFrameworkID
         then [(WarnLevel, ''Framework id is not consistent'')] else []) @
        [(InfoLevel, ''Reregister to Mesos master with previous framework ID'')]\<rparr>)"
  using assms GetFrameworkID_frame(1) [OF assms(2)]
  by (simp add: prepareSubscribe_rest_def Let_def logf_def PtrPrintf_def)

text \<open>The driver that \<open>prepareSubscribe\<close> leaves is the one \<open>GetFrameworkID\<close> left, if it ran.\<close>

lemma prepareSubscribe_driver:
  assumes "prepareSubscribe ctx d w = (r, d', w')"
  shows "d' = d \<or> (\<exists>w0 fid w1. GetFrameworkID ctx d w0 = (fid, d', w1))"
proof -
  let ?w = "w\<lparr>logged := logged w @
          (if GPUSupported (cfg d) then [(InfoLevel, ''GPU capability is supported'')] else []) @
          (if TaskKillingStateSupported (cfg d)
           then [(InfoLevel, ''Task_Killing_State capability is supported'')] else []) @
          (if PartitionAwareSupported (cfg d)
           then [(InfoLevel, ''Partition Aware capability is supported'')] else []) @
          (if RevocableResourcesSupported (cfg d)
           then [(InfoLevel, ''Revocable resources capability is supported'')] else [])\<rparr>"
  obtain fid d1 w1 where g: "GetFrameworkID ctx d ?w = (fid, d1, w1)"
    by (cases "GetFrameworkID ctx d ?w") auto
  have "d' = d \<or> d' = d1"
  proof (cases "os_Hostname w")
    case (Inl err)
    then show ?thesis
      using assms by (simp add: prepareSubscribe_split prepareSubscribe_rest_Inl)
  next
    case (Inr host)
    then have "os_Hostname ?w = Inr host" by simp
    from prepareSubscribe_rest_Inr [OF this g] assms show ?thesis
      by (simp add: prepareSubscribe_split)
  qed
  with g show ?thesis by blast
qed

lemma prepareSubscribe_frame:
  assumes "prepareSubscribe ctx d w = (r, d', w')"
  shows "cfg d' = cfg d" and "store d' = store d" and "encoding d' = encoding d"
    and "defaultHeaders d' = defaultHeaders d" and "mesosStreamID d' = mesosStreamID d"
  using prepareSubscribe_driver [OF assms] GetFrameworkID_frame [where d = d and d' = d']
  by auto

text \<open>With an ID in the driver, \<open>prepareSubscribe\<close> makes no store call and presents that ID.\<close>

lemma prepareSubscribe_cached:
  assumes f: "frameworkID d = Some fid" and v: "GetValue (Some fid) \<noteq> []"
  shows "\<exists>r w'. prepareSubscribe ctx d w = (r, d, w') \<and> db w' = db w \<and> calls w' = calls w \<and>
           (case os_Hostname w of
              Inl err \<Rightarrow> r = Inl (errors_Wrap err ''Failed to get host name'')
            | Inr host \<Rightarrow>
                (\<exists>call info. r = Inr call \<and> FrameworkId call = Some fid \<and>
                   Subscribe call = Some \<lparr>sub_FrameworkInfo = Some info\<rparr> \<and>
                   info_Id info = Some fid))"
proof (cases "os_Hostname w")
  case (Inl err)
  then show ?thesis
    by (simp add: prepareSubscribe_split prepareSubscribe_rest_Inl logf_def)
next
  case (Inr host)
  let ?w = "w\<lparr>logged := logged w @
          (if GPUSupported (cfg d) then [(InfoLevel, ''GPU capability is supported'')] else []) @
          (if TaskKillingStateSupported (cfg d)
           then [(InfoLevel, ''Task_Killing_State capability is supported'')] else []) @
          (if PartitionAwareSupported (cfg d)
           then [(InfoLevel, ''Partition Aware capability is supported'')] else []) @
          (if RevocableResourcesSupported (cfg d)
           then [(InfoLevel, ''Revocable resources capability is supported'')] else [])\<rparr>"
  have h: "os_Hostname ?w = Inr host" using Inr by simp
  have g: "GetFrameworkID ctx d ?w = (Some fid, d, ?w)"
    using f by (rule GetFrameworkID_cached)
  show ?thesis
    using v Inr
    by (simp add: prepareSubscribe_split prepareSubscribe_rest_Inr [OF h g])
qed

text \<open>\<open>prepareSubscribe\<close> returns a call where the host name can be read, and only there.\<close>

lemma prepareSubscribe_returns:
  assumes "os_Hostname w = Inr host"
  shows "\<exists>call d' w'. prepareSubscribe ctx d w = (Inr call, d', w')"
proof -
  let ?w = "w\<lparr>logged := logged w @
          (if GPUSupported (cfg d) then [(InfoLevel, ''GPU capability is supported'')] else []) @
          (if TaskKillingStateSupported (cfg d)
           then [(InfoLevel, ''Task_Killing_State capability is supported'')] else []) @
          (if PartitionAwareSupported (cfg d)
           then [(InfoLevel, ''Partition Aware capability is supported'')] else []) @
          (if RevocableResourcesSupported (cfg d)
           then [(InfoLevel, ''Revocable resources capability is supported'')] else [])\<rparr>"
  have h: "os_Hostname ?w = Inr host" using assms by simp
  obtain fid d1 w1 where g: "GetFrameworkID ctx d ?w = (fid, d1, w1)"
    by (cases "GetFrameworkID ctx d ?w") auto
  show ?thesis
    by (simp add: prepareSubscribe_split prepareSubscribe_rest_Inr [OF h g])
qed

lemma prepareSubscribe_fails:
  assumes "os_Hostname w = Inl err"
  shows "fst (prepareSubscribe ctx d w) = Inl (errors_Wrap err ''Failed to get host name'')"
  using assms by (simp add: prepareSubscribe_split prepareSubscribe_rest_Inl)

text \<open>
  C6: for every configuration, where the host name can be read, \<open>prepareSubscribe\<close> returns a
  SUBSCRIBE call whose FrameworkInfo has checkpoint true; its capabilities are, in this
  order, GPU_RESOURCES, TASK_KILLING_STATE, PARTITION_AWARE and REVOCABLE_RESOURCES, each
  there exactly when its flag is set, and nothing else; its hostname is the local host name;
  failoverTimeout, user, name and principal are the configured ones; and role is there
  exactly when the configured role is not empty.
\<close>

theorem subscribe_FrameworkInfo:
  assumes "os_Hostname w = Inr host"
  shows "\<exists>call d' w' info.
           prepareSubscribe ctx d w = (Inr call, d', w') \<and>
           Type call = Some SUBSCRIBE \<and>
           Subscribe call = Some \<lparr>sub_FrameworkInfo = Some info\<rparr> \<and>
           info_Checkpoint info = Some True \<and>
           info_Capabilities info =
             (if GPUSupported (cfg d) then [capability GPU_RESOURCES] else []) @
             (if TaskKillingStateSupported (cfg d) then [capability TASK_KILLING_STATE] else []) @
             (if PartitionAwareSupported (cfg d) then [capability PARTITION_AWARE] else []) @
             (if RevocableResourcesSupported (cfg d) then [capability REVOCABLE_RESOURCES] else []) \<and>
           (capability GPU_RESOURCES \<in> set (info_Capabilities info)) = GPUSupported (cfg d) \<and>
           (capability TASK_KILLING_STATE \<in> set (info_Capabilities info)) =
             TaskKillingStateSupported (cfg d) \<and>
           (capability PARTITION_AWARE \<in> set (info_Capabilities info)) =
             PartitionAwareSupported (cfg d) \<and>
           (capability REVOCABLE_RESOURCES \<in> set (info_Capabilities info)) =
             RevocableResourcesSupported (cfg d) \<and>
           info_Hostname info = Some host \<and>
           info_FailoverTimeout info = Some (FailoverTimeout (cfg d)) \<and>
           info_User info = Some (User (cfg d)) \<and>
           info_Name info = Some (Name (cfg d)) \<and>
           info_Principal info = Some (Principal (cfg d)) \<and>
           info_Role info = (if Role (cfg d) = [] then None else Some (Role (cfg d)))"
proof -
  let ?w = "w\<lparr>logged := logged w @
          (if GPUSupported (cfg d) then [(InfoLevel, ''GPU capability is supported'')] else []) @
          (if TaskKillingStateSupported (cfg d)
           then [(InfoLevel, ''Task_Killing_State capability is supported'')] else []) @
          (if PartitionAwareSupported (cfg d)
           then [(InfoLevel, ''Partition Aware capability is supported'')] else []) @
          (if RevocableResourcesSupported (cfg d)
           then [(InfoLevel, ''Revocable resources capability is supported'')] else [])\<rparr>"
  have h: "os_Hostname ?w = Inr host" using assms by simp
  obtain fid d1 w1 where g: "GetFrameworkID ctx d ?w = (fid, d1, w1)"
    by (cases "GetFrameworkID ctx d ?w") auto
  show ?thesis
    by (simp add: prepareSubscribe_split prepareSubscribe_rest_Inr [OF h g] capability_def)
qed

theorem subscribe_FrameworkInfo_witness:
  "os_Hostname (exampleWorld []) = Inr ''host1'' \<and>
   (\<exists>call d' w' info.
      prepareSubscribe () exampleDriver (exampleWorld []) = (Inr call, d', w') \<and>
      Subscribe call = Some \<lparr>sub_FrameworkInfo = Some info\<rparr> \<and>
      info_Checkpoint info = Some True \<and>
      info_Capabilities info = [capability GPU_RESOURCES, capability PARTITION_AWARE] \<and>
      info_Hostname info = Some ''host1'' \<and>
      info_FailoverTimeout info = Some 0 \<and>
      info_User info = Some ''root'' \<and>
      info_Name info = Some ''Peloton'' \<and>
      info_Principal info = Some ''peloton'' \<and>
      info_Role info = Some ''peloton'')"
proof -
  have h: "os_Hostname (exampleWorld []) = Inr ''host1''"
    by (simp add: exampleWorld_def)
  have c: "cfg exampleDriver = Framework exampleConfig"
    by (simp add: exampleDriver_def InitSchedulerDriver_def)
  from subscribe_FrameworkInfo [OF h, of "()" exampleDriver]
  obtain call d' w' info where
    "prepareSubscribe () exampleDriver (exampleWorld []) = (Inr call, d', w')"
    "Subscribe call = Some \<lparr>sub_FrameworkInfo = Some info\<rparr>"
    "info_Checkpoint info = Some True"
    "info_Capabilities info = [capability GPU_RESOURCES, capability PARTITION_AWARE]"
    "info_Hostname info = Some ''host1''"
    "info_FailoverTimeout info = Some 0"
    "info_User info = Some ''root''"
    "info_Name info = Some ''Peloton''"
    "info_Principal info = Some ''peloton''"
    "info_Role info = Some ''peloton''"
    unfolding c by (auto simp add: exampleConfig_def)
  with h show ?thesis by blast
qed

text \<open>
  C1: wherever \<open>prepareSubscribe\<close> builds the payload (the host name can be read), the call and
  its FrameworkInfo carry one framework ID, which is never empty; and if \<open>GetFrameworkID\<close>
  gives nil or an ID with an empty value (the store failed, or had nothing, or had the empty
  string), that ID is the constant \<open>pelotonFrameworkID\<close>.
\<close>

theorem subscribe_default_framework_id:
  assumes "os_Hostname w = Inr host"
  shows "\<exists>call d' w' info.
           prepareSubscribe ctx d w = (Inr call, d', w') \<and>
           GetValue (FrameworkId call) \<noteq> [] \<and>
           Subscribe call = Some \<lparr>sub_FrameworkInfo = Some info\<rparr> \<and>
           info_Id info = FrameworkId call \<and>
           (GetValue (fst (GetFrameworkID ctx d w)) = [] \<longrightarrow>
              FrameworkId call = Some \<lparr>Value = Some pelotonFrameworkID\<rparr>)"
proof -
  let ?w = "w\<lparr>logged := logged w @
          (if GPUSupported (cfg d) then [(InfoLevel, ''GPU capability is supported'')] else []) @
          (if TaskKillingStateSupported (cfg d)
           then [(InfoLevel, ''Task_Killing_State capability is supported'')] else []) @
          (if PartitionAwareSupported (cfg d)
           then [(InfoLevel, ''Partition Aware capability is supported'')] else []) @
          (if RevocableResourcesSupported (cfg d)
           then [(InfoLevel, ''Revocable resources capability is supported'')] else [])\<rparr>"
  have h: "os_Hostname ?w = Inr host" using assms by simp
  obtain fid d1 w1 where g: "GetFrameworkID ctx d ?w = (fid, d1, w1)"
    by (cases "GetFrameworkID ctx d ?w") auto
  have "fst (GetFrameworkID ctx d ?w) = fst (GetFrameworkID ctx d w)"
    by (rule GetFrameworkID_logged)
  with g have same: "fst (GetFrameworkID ctx d w) = fid" by simp
  have nonempty: "pelotonFrameworkID \<noteq> []"
    by (simp add: pelotonFrameworkID_def)
  show ?thesis
    using same nonempty
    by (simp add: prepareSubscribe_split prepareSubscribe_rest_Inr [OF h g])
qed

theorem subscribe_default_framework_id_witness:
  "os_Hostname (exampleWorld []) = Inr ''host1'' \<and>
   (\<exists>call d' w' info.
      prepareSubscribe () exampleDriver (exampleWorld []) = (Inr call, d', w') \<and>
      GetValue (FrameworkId call) \<noteq> [] \<and>
      Subscribe call = Some \<lparr>sub_FrameworkInfo = Some info\<rparr> \<and>
      info_Id info = FrameworkId call \<and>
      FrameworkId call = Some \<lparr>Value = Some pelotonFrameworkID\<rparr>)"
proof -
  have h: "os_Hostname (exampleWorld []) = Inr ''host1''"
    by (simp add: exampleWorld_def)
  have e: "GetValue (fst (GetFrameworkID () exampleDriver (exampleWorld []))) = []"
    by (simp add: GetFrameworkID_def exampleDriver_def InitSchedulerDriver_def exampleWorld_def
        kvStore_def exampleConfig_def logf_def)
  from subscribe_default_framework_id [OF h, of "()" exampleDriver] e h
  show ?thesis by simp
qed

text \<open>
  C3: where the host name can be read and \<open>GetFrameworkID\<close> gives an ID whose value is not
  empty and is not \<open>pelotonFrameworkID\<close>, \<open>prepareSubscribe\<close> does return a call; the call and
  its FrameworkInfo carry that ID, not the default; and the lines this call adds to the log
  end with the warning "Framework id is not consistent" and the closing info line.
\<close>

theorem subscribe_storage_framework_id:
  assumes host: "os_Hostname w = Inr host"
      and got: "fst (GetFrameworkID ctx d w) = Some fid"
      and nonempty: "GetValue (Some fid) \<noteq> []"
      and differs: "GetValue (Some fid) \<noteq> pelotonFrameworkID"
  shows "\<exists>call d' w' info pre.
           prepareSubscribe ctx d w = (Inr call, d', w') \<and>
           FrameworkId call = Some fid \<and>
           Subscribe call = Some \<lparr>sub_FrameworkInfo = Some info\<rparr> \<and>
           info_Id info = Some fid \<and>
           logged w' = logged w @ pre @
             [(WarnLevel, ''Framework id is not consistent''),
              (InfoLevel, ''Reregister to Mesos master with previous framework ID'')]"
proof -
  let ?w = "w\<lparr>logged := logged w @
          (if GPUSupported (cfg d) then [(InfoLevel, ''GPU capability is supported'')] else []) @
          (if TaskKillingStateSupported (cfg d)
           then [(InfoLevel, ''Task_Killing_State capability is supported'')] else []) @
          (if PartitionAwareSupported (cfg d)
           then [(InfoLevel, ''Partition Aware capability is supported'')] else []) @
          (if RevocableResourcesSupported (cfg d)
           then [(InfoLevel, ''Revocable resources capability is supported'')] else [])\<rparr>"
  have h: "os_Hostname ?w = Inr host" using host by simp
  obtain r d1 w1 where g: "GetFrameworkID ctx d ?w = (r, d1, w1)"
    by (cases "GetFrameworkID ctx d ?w") auto
  have "fst (GetFrameworkID ctx d ?w) = fst (GetFrameworkID ctx d w)"
    by (rule GetFrameworkID_logged)
  with g got have r: "r = Some fid" by simp
  from GetFrameworkID_log_grows [OF g] obtain l1 where "logged w1 = logged ?w @ l1" ..
  then obtain pre where pre: "logged w1 = logged w @ pre"
    by simp
  show ?thesis
    using nonempty differs pre
    by (simp add: prepareSubscribe_split prepareSubscribe_rest_Inr [OF h g] r)
qed

theorem subscribe_storage_framework_id_witness:
  "os_Hostname (exampleWorld [(''Peloton'', ''f-0001'')]) = Inr ''host1'' \<and>
   fst (GetFrameworkID () exampleDriver (exampleWorld [(''Peloton'', ''f-0001'')])) =
     Some \<lparr>Value = Some ''f-0001''\<rparr> \<and>
   GetValue (Some \<lparr>Value = Some ''f-0001''\<rparr>) \<noteq> [] \<and>
   GetValue (Some \<lparr>Value = Some ''f-0001''\<rparr>) \<noteq> pelotonFrameworkID \<and>
   (\<exists>call d' w' info pre.
      prepareSubscribe () exampleDriver (exampleWorld [(''Peloton'', ''f-0001'')]) =
        (Inr call, d', w') \<and>
      FrameworkId call = Some \<lparr>Value = Some ''f-0001''\<rparr> \<and>
      Subscribe call = Some \<lparr>sub_FrameworkInfo = Some info\<rparr> \<and>
      info_Id info = Some \<lparr>Value = Some ''f-0001''\<rparr> \<and>
      logged w' = logged (exampleWorld [(''Peloton'', ''f-0001'')]) @ pre @
        [(WarnLevel, ''Framework id is not consistent''),
         (InfoLevel, ''Reregister to Mesos master with previous framework ID'')])"
proof -
  have h: "os_Hostname (exampleWorld [(''Peloton'', ''f-0001'')]) = Inr ''host1''"
    by (simp add: exampleWorld_def)
  have g: "fst (GetFrameworkID () exampleDriver (exampleWorld [(''Peloton'', ''f-0001'')])) =
      Some \<lparr>Value = Some ''f-0001''\<rparr>"
    by (simp add: GetFrameworkID_def exampleDriver_def InitSchedulerDriver_def exampleWorld_def
        kvStore_def exampleConfig_def logf_def)
  have n: "GetValue (Some \<lparr>Value = Some ''f-0001''\<rparr>) \<noteq> []"
    by simp
  have f: "GetValue (Some \<lparr>Value = Some ''f-0001''\<rparr>) \<noteq> pelotonFrameworkID"
    by (simp add: pelotonFrameworkID_def)
  from subscribe_storage_framework_id [OF h g n f] h g n f
  show ?thesis by simp
qed

subsection \<open>The subscribe request\<close>

text \<open>
  C9: called with an empty master host:port, \<open>PrepareSubscribeRequest\<close> returns the error
  "No active leader detected" and no request; the driver is as it was, and so is the world:
  no store call was made, nothing was logged, and no payload was built or marshalled,
  whatever the store and the marshaller are.
\<close>

theorem PrepareSubscribeRequest_no_leader:
  "PrepareSubscribeRequest ext ctx [] d w = (Inl (Error ''No active leader detected''), d, w)"
  by (simp add: PrepareSubscribeRequest_def errors_New_def)

lemma PrepareSubscribeRequest_driver:
  assumes "PrepareSubscribeRequest ext ctx hp d w = (r, d', w')"
  shows "d' = d \<or> (\<exists>w0 fid w1. GetFrameworkID ctx d w0 = (fid, d', w1))"
proof -
  obtain r1 d1 w1 where p: "prepareSubscribe ctx d w = (r1, d1, w1)"
    by (cases "prepareSubscribe ctx d w") auto
  from assms have "d' = d \<or> d' = d1"
    by (auto simp add: PrepareSubscribeRequest_def p Let_def split: if_splits sum.splits)
  with prepareSubscribe_driver [OF p] show ?thesis by blast
qed

text \<open>
  A request is returned whenever the host:port is not empty, the host name can be read, the
  marshaller takes the driver's encoding and the URL is accepted.
\<close>

lemma PrepareSubscribeRequest_returns:
  assumes "hp \<noteq> []" and "os_Hostname w = Inr host"
      and "\<And>call. \<exists>body. MarshalPbMessage ext call (encoding d) = Inr body"
      and "url_Parse ext \<lparr>Scheme = ''http'', Host = hp, Path = ''/api/v1/scheduler''\<rparr> = None"
  shows "\<exists>req d' w'. PrepareSubscribeRequest ext ctx hp d w = (Inr req, d', w')"
proof -
  from prepareSubscribe_returns [OF assms(2), of ctx d]
  obtain call d1 w1 where p: "prepareSubscribe ctx d w = (Inr call, d1, w1)"
    by blast
  have e: "encoding d1 = encoding d"
    using prepareSubscribe_frame(3) [OF p] .
  from assms(3) obtain body where m: "MarshalPbMessage ext call (encoding d) = Inr body"
    by blast
  show ?thesis
    using assms(1,4)
    by (simp add: PrepareSubscribeRequest_def p e m Let_def Endpoint_def http_NewRequest_def
        serviceSchema_def servicePath_def)
qed

text \<open>An empty port is all that \<open>removeEmptyPort\<close> takes away.\<close>

lemma removeEmptyPort_cases:
  "removeEmptyPort hp = hp \<or> hp = removeEmptyPort hp @ '':''"
proof (cases "hasPort hp \<and> 1 \<le> length hp \<and> drop (length hp - 1) hp = '':''")
  case True
  then have "removeEmptyPort hp = take (length hp - 1) hp"
    by (simp add: removeEmptyPort_def TrimSuffix_def)
  moreover have "hp = take (length hp - 1) hp @ '':''"
    using True by (metis append_take_drop_id)
  ultimately show ?thesis by simp
next
  case False
  then show ?thesis
    by (auto simp add: removeEmptyPort_def TrimSuffix_def)
qed

text \<open>
  C8: every request that \<open>PrepareSubscribeRequest\<close> returns was asked for with a non-empty
  master host:port; it is a POST to the URL with scheme http, the path \<open>/api/v1/scheduler\<close>
  and that host (as given, or without its last colon if it was given with an empty port); its
  Content-Type and its Accept header each have the one value \<open>application/\<close> followed by the
  driver's encoding, whatever the default headers are; and its body is what the marshaller
  made of the SUBSCRIBE call for that encoding.
\<close>

theorem subscribe_request:
  assumes "PrepareSubscribeRequest ext ctx hp d w = (Inr req, d', w')"
  shows "hp \<noteq> [] \<and> Method req = ''POST'' \<and>
         req_URL req =
           \<lparr>Scheme = ''http'', Host = removeEmptyPort hp, Path = ''/api/v1/scheduler''\<rparr> \<and>
         (removeEmptyPort hp = hp \<or> hp = removeEmptyPort hp @ '':'') \<and>
         map_of (req_Header req) ''Content-Type'' = Some [''application/'' @ encoding d] \<and>
         map_of (req_Header req) ''Accept'' = Some [''application/'' @ encoding d] \<and>
         Header_Get (req_Header req) ''Content-Type'' = ''application/'' @ encoding d \<and>
         Header_Get (req_Header req) ''Accept'' = ''application/'' @ encoding d \<and>
         (\<exists>call. fst (prepareSubscribe ctx d w) = Inr call \<and>
            MarshalPbMessage ext call (encoding d) = Inr (Body req))"
proof -
  obtain r1 d1 w1 where p: "prepareSubscribe ctx d w = (r1, d1, w1)"
    by (cases "prepareSubscribe ctx d w") auto
  have e: "encoding d1 = encoding d"
    using prepareSubscribe_frame(3) [OF p] .
  have ct: "CanonicalMIMEHeaderKey ''Content-Type'' = ''Content-Type''"
    by code_simp
  have ac: "CanonicalMIMEHeaderKey ''Accept'' = ''Accept''"
    by code_simp
  from assms removeEmptyPort_cases [of hp] show ?thesis
    by (auto simp add: PrepareSubscribeRequest_def p e Let_def Endpoint_def http_NewRequest_def
        serviceSchema_def servicePath_def Header_Set_def update_conv' Header_Get_def ct ac
        split: if_splits sum.splits option.splits)
qed

theorem subscribe_request_witness:
  "\<exists>req d' w'.
     PrepareSubscribeRequest exampleExternals () ''master:5050''
       (exampleDriver\<lparr>defaultHeaders := [(''accept'', [''text/plain''])]\<rparr>) (exampleWorld []) =
       (Inr req, d', w') \<and>
     Method req = ''POST'' \<and>
     req_URL req = \<lparr>Scheme = ''http'', Host = ''master:5050'', Path = ''/api/v1/scheduler''\<rparr> \<and>
     map_of (req_Header req) ''Content-Type'' = Some [''application/x-protobuf''] \<and>
     map_of (req_Header req) ''Accept'' = Some [''application/x-protobuf'']"
proof -
  let ?d = "exampleDriver\<lparr>defaultHeaders := [(''accept'', [''text/plain''])]\<rparr>"
  have h: "os_Hostname (exampleWorld []) = Inr ''host1''"
    by (simp add: exampleWorld_def)
  from prepareSubscribe_returns [OF h, of "()" ?d]
  obtain call d1 w1 where p: "prepareSubscribe () ?d (exampleWorld []) = (Inr call, d1, w1)"
    by blast
  have e: "encoding d1 = ''x-protobuf''"
    using prepareSubscribe_frame(3) [OF p]
    by (simp add: exampleDriver_def InitSchedulerDriver_def exampleConfig_def)
  have "\<exists>req. PrepareSubscribeRequest exampleExternals () ''master:5050'' ?d (exampleWorld []) =
      (Inr req, d1, w1)"
    by (simp add: PrepareSubscribeRequest_def p e exampleExternals_def http_NewRequest_def
        Let_def)
  then obtain req where r:
    "PrepareSubscribeRequest exampleExternals () ''master:5050'' ?d (exampleWorld []) =
      (Inr req, d1, w1)" ..
  have e0: "encoding ?d = ''x-protobuf''"
    by (simp add: exampleDriver_def InitSchedulerDriver_def exampleConfig_def)
  have m: "removeEmptyPort ''master:5050'' = ''master:5050''"
    by (simp add: removeEmptyPort_def hasPort_def LastIndexByte_def TrimSuffix_def)
  from subscribe_request [OF r] r show ?thesis
    unfolding e0 m by auto
qed

subsection \<open>Histories\<close>

text \<open>
  A step of a history leaves the driver as it was but for the stream ID field, or leaves the
  driver that a call of \<open>GetFrameworkID\<close> left.
\<close>

lemma step_driver:
  assumes "step ext x (d, w) = (r, d', w')"
  shows "d' = d \<or> (\<exists>m. d' = d\<lparr>mesosStreamID := m\<rparr>) \<or>
         (\<exists>ctx w0 fid w1. GetFrameworkID ctx d w0 = (fid, d', w1))"
proof (cases x)
  case (DoGetFrameworkID ctx)
  with assms show ?thesis by (auto split: prod.splits)
next
  case (DoGetMesosStreamID ctx)
  with assms show ?thesis
    by (auto simp add: GetMesosStreamID_def Let_def split: prod.splits sum.splits)
next
  case (DoPrepareSubscribe ctx)
  with assms prepareSubscribe_driver [of ctx d w] show ?thesis
    by (auto split: prod.splits)
next
  case (DoPrepareSubscribeRequest ctx hp)
  with assms PrepareSubscribeRequest_driver [of ext ctx hp d w] show ?thesis
    by (auto split: prod.splits)
next
  case (DoPostSubscribe ctx sid)
  with assms show ?thesis
    by (auto simp add: PostSubscribe_def Let_def split: prod.splits option.splits)
qed (use assms in auto)

lemma step_keeps:
  assumes "step ext x (d, w) = (r, d', w')"
  shows "frameworkID d = Some f \<Longrightarrow> frameworkID d' = Some f"
    and "frameworkID d = None \<or> GetValue (frameworkID d) \<noteq> [] \<Longrightarrow>
         frameworkID d' = None \<or> GetValue (frameworkID d') \<noteq> []"
  using step_driver [OF assms] GetFrameworkID_keeps(2,3) [where d = d and d' = d']
  by auto

lemma run_keeps:
  assumes "run ext xs (d, w) = (rs, d', w')"
  shows "(frameworkID d = Some f \<longrightarrow> frameworkID d' = Some f) \<and>
         (frameworkID d = None \<or> GetValue (frameworkID d) \<noteq> [] \<longrightarrow>
          frameworkID d' = None \<or> GetValue (frameworkID d') \<noteq> [])"
  using assms
proof (induction xs arbitrary: d w rs)
  case Nil
  then show ?case by simp
next
  case (Cons x xs)
  obtain r d1 w1 where s: "step ext x (d, w) = (r, d1, w1)"
    by (cases "step ext x (d, w)") auto
  obtain rs1 where r: "run ext xs (d1, w1) = (rs1, d', w')"
    using Cons.prems s by (auto split: prod.splits)
  from Cons.IH [OF r] step_keeps [OF s] show ?case by blast
qed

text \<open>
  C2: take a driver made by \<open>InitSchedulerDriver\<close>, after any history. Once \<open>GetFrameworkID\<close>
  has returned an ID that is not nil, then after any further history, in which the rest of
  the system may have changed the store's contents and everything else in the world at will,
  \<open>GetFrameworkID\<close> returns that same ID and leaves the driver and the world as they were (no
  store call is made); and \<open>prepareSubscribe\<close> makes no store call either and, where the host
  name can be read, puts that same ID in the call and in its FrameworkInfo.
\<close>

theorem framework_id_stable:
  assumes start: "run ext ops0 (InitSchedulerDriver config st hdrs, w0) = (rs0, d, w)"
      and got: "GetFrameworkID ctx d w = (Some fid, d1, w1)"
      and later: "run ext ops (d1, w1) = (rs, d2, w2)"
  shows "GetFrameworkID ctx' d2 w2 = (Some fid, d2, w2) \<and>
         (\<exists>r w3. prepareSubscribe ctx' d2 w2 = (r, d2, w3) \<and>
            db w3 = db w2 \<and> calls w3 = calls w2 \<and>
            (case os_Hostname w2 of
               Inl err \<Rightarrow> r = Inl (errors_Wrap err ''Failed to get host name'')
             | Inr host \<Rightarrow>
                 (\<exists>call info. r = Inr call \<and> FrameworkId call = Some fid \<and>
                    Subscribe call = Some \<lparr>sub_FrameworkInfo = Some info\<rparr> \<and>
                    info_Id info = Some fid)))"
proof -
  have "frameworkID (InitSchedulerDriver config st hdrs) = None"
    by (simp add: InitSchedulerDriver_def)
  with run_keeps [OF start] have inv: "frameworkID d = None \<or> GetValue (frameworkID d) \<noteq> []"
    by simp
  from GetFrameworkID_keeps [OF got] inv
  have d1: "frameworkID d1 = Some fid" and v: "GetValue (Some fid) \<noteq> []"
    by auto
  from run_keeps [OF later] d1 have d2: "frameworkID d2 = Some fid"
    by simp
  from GetFrameworkID_cached [OF d2] prepareSubscribe_cached [OF d2 v]
  show ?thesis by simp
qed

theorem framework_id_stable_witness:
  "\<exists>d1 w1 rs d2 w2.
     run exampleExternals [] (InitSchedulerDriver exampleConfig kvStore [],
        exampleWorld [(''Peloton'', ''f-0001'')]) =
       ([], exampleDriver, exampleWorld [(''Peloton'', ''f-0001'')]) \<and>
     GetFrameworkID () exampleDriver (exampleWorld [(''Peloton'', ''f-0001'')]) =
       (Some \<lparr>Value = Some ''f-0001''\<rparr>, d1, w1) \<and>
     run exampleExternals
       [Outside (\<lambda>w. w\<lparr>db := \<lparr>kv_frameworkID = [(''Peloton'', ''f-0002'')], kv_streamID = []\<rparr>\<rparr>),
        DoPostSubscribe () ''stream-1'']
       (d1, w1) = (rs, d2, w2) \<and>
     map_of (kv_frameworkID (db w2)) ''Peloton'' = Some ''f-0002'' \<and>
     GetFrameworkID () d2 w2 = (Some \<lparr>Value = Some ''f-0001''\<rparr>, d2, w2) \<and>
     (\<exists>call w3 info. prepareSubscribe () d2 w2 = (Inr call, d2, w3) \<and>
        calls w3 = calls w2 \<and>
        FrameworkId call = Some \<lparr>Value = Some ''f-0001''\<rparr> \<and>
        Subscribe call = Some \<lparr>sub_FrameworkInfo = Some info\<rparr> \<and>
        info_Id info = Some \<lparr>Value = Some ''f-0001''\<rparr>)"
proof -
  let ?W = "exampleWorld [(''Peloton'', ''f-0001'')]"
  let ?ops = "[Outside (\<lambda>w. w\<lparr>db := \<lparr>kv_frameworkID = [(''Peloton'', ''f-0002'')],
                 kv_streamID = []\<rparr>\<rparr>), DoPostSubscribe () ''stream-1'']"
  have s: "run exampleExternals [] (InitSchedulerDriver exampleConfig kvStore [], ?W) =
      ([], exampleDriver, ?W)"
    by (simp add: exampleDriver_def)
  obtain d1 w1 where g: "GetFrameworkID () exampleDriver ?W =
      (Some \<lparr>Value = Some ''f-0001''\<rparr>, d1, w1)"
    and h1: "os_Hostname w1 = Inr ''host1''" and st: "store d1 = kvStore"
    by (simp add: GetFrameworkID_def exampleDriver_def InitSchedulerDriver_def exampleWorld_def
        kvStore_def exampleConfig_def logf_def)
  obtain rs d2 w2 where l: "run exampleExternals ?ops (d1, w1) = (rs, d2, w2)"
    by (cases "run exampleExternals ?ops (d1, w1)") auto
  from l h1 st have w2: "os_Hostname w2 = Inr ''host1''"
    and db: "map_of (kv_frameworkID (db w2)) ''Peloton'' = Some ''f-0002''"
    by (auto simp add: PostSubscribe_def kvStore_def Let_def logf_def)
  from framework_id_stable [OF s g l, of "()"] w2 db s g l
  show ?thesis by auto
qed

text \<open>
  C4: let the store be one that, after a write of a stream ID under a name has succeeded,
  gives that ID back from a read under that name that succeeds. If \<open>PostSubscribe\<close> is called
  with a stream ID and the write to the store succeeds, and \<open>GetMesosStreamID\<close> is called next
  on the same driver and the read of the store succeeds, then it returns that stream ID.
\<close>

theorem stream_id_round_trip:
  assumes law: "\<And>c n v s s' c' r s''.
                  store_SetMesosStreamID (store d) c n v s = (None, s') \<Longrightarrow>
                  store_GetMesosStreamID (store d) c' n s' = (Inr r, s'') \<Longrightarrow> r = v"
      and post: "PostSubscribe ctx sid d w = (d1, w1)"
      and written: "fst (store_SetMesosStreamID (store d) ctx (Name (cfg d)) sid (db w)) = None"
      and read: "fst (store_GetMesosStreamID (store d) ctx' (Name (cfg d)) (db w1)) = Inr v"
  shows "fst (GetMesosStreamID ctx' d1 w1) = sid"
proof -
  obtain s' where set: "store_SetMesosStreamID (store d) ctx (Name (cfg d)) sid (db w) = (None, s')"
    using written by (cases "store_SetMesosStreamID (store d) ctx (Name (cfg d)) sid (db w)") auto
  with post have d1: "d1 = d" and w1: "db w1 = s'"
    by (auto simp add: PostSubscribe_def Let_def)
  obtain s'' where get: "store_GetMesosStreamID (store d) ctx' (Name (cfg d)) s' = (Inr v, s'')"
    using read w1 by (cases "store_GetMesosStreamID (store d) ctx' (Name (cfg d)) s'") auto
  from law [OF set get] have "v = sid" .
  with get d1 w1 show ?thesis
    by (simp add: GetMesosStreamID_def Let_def)
qed

theorem stream_id_round_trip_witness:
  "\<exists>d1 w1.
     PostSubscribe () ''stream-1'' exampleDriver (exampleWorld []) = (d1, w1) \<and>
     fst (store_SetMesosStreamID (store exampleDriver) () (Name (cfg exampleDriver)) ''stream-1''
            (db (exampleWorld []))) = None \<and>
     fst (store_GetMesosStreamID (store exampleDriver) () (Name (cfg exampleDriver)) (db w1)) =
       Inr ''stream-1'' \<and>
     fst (GetMesosStreamID () d1 w1) = ''stream-1''"
proof -
  have st: "store exampleDriver = kvStore"
    by (simp add: exampleDriver_def InitSchedulerDriver_def)
  obtain d1 w1 where p: "PostSubscribe () ''stream-1'' exampleDriver (exampleWorld []) = (d1, w1)"
    by (cases "PostSubscribe () ''stream-1'' exampleDriver (exampleWorld [])") auto
  have wr: "fst (store_SetMesosStreamID (store exampleDriver) () (Name (cfg exampleDriver))
      ''stream-1'' (db (exampleWorld []))) = None"
    unfolding st by (simp add: kvStore_def)
  have rd: "fst (store_GetMesosStreamID (store exampleDriver) () (Name (cfg exampleDriver))
      (db w1)) = Inr ''stream-1''"
    using p unfolding st
    by (auto simp add: PostSubscribe_def kvStore_def Let_def exampleDriver_def
        InitSchedulerDriver_def exampleWorld_def)
  have "fst (GetMesosStreamID () d1 w1) = ''stream-1''"
  proof (rule stream_id_round_trip [where d = exampleDriver, OF _ p wr rd])
    fix c n v s s' c' r s''
    assume "store_SetMesosStreamID (store exampleDriver) c n v s = (None, s')"
      and "store_GetMesosStreamID (store exampleDriver) c' n s' = (Inr r, s'')"
    then show "r = v"
      unfolding st by (auto simp add: kvStore_def update_conv')
  qed
  with p wr rd show ?thesis by blast
qed

subsection \<open>The stream ID field\<close>

lemma prepareSubscribe_rest_msid:
  "prepareSubscribe_rest caps ctx (d\<lparr>mesosStreamID := x\<rparr>) w =
     (case prepareSubscribe_rest caps ctx d w of
        (r, d', w') \<Rightarrow> (r, d'\<lparr>mesosStreamID := x\<rparr>, w'))"
proof (cases "os_Hostname w")
  case (Inl err)
  then show ?thesis by (simp add: prepareSubscribe_rest_Inl)
next
  case (Inr host)
  obtain fid d1 w1 where g: "GetFrameworkID ctx d w = (fid, d1, w1)"
    by (cases "GetFrameworkID ctx d w") auto
  then have g': "GetFrameworkID ctx (d\<lparr>mesosStreamID := x\<rparr>) w =
      (fid, d1\<lparr>mesosStreamID := x\<rparr>, w1)"
    by (simp add: GetFrameworkID_msid)
  show ?thesis
    by (simp add: prepareSubscribe_rest_Inr [OF Inr g] prepareSubscribe_rest_Inr [OF Inr g'])
qed

lemma prepareSubscribe_msid:
  "prepareSubscribe ctx (d\<lparr>mesosStreamID := x\<rparr>) w =
     (case prepareSubscribe ctx d w of (r, d', w') \<Rightarrow> (r, d'\<lparr>mesosStreamID := x\<rparr>, w'))"
  by (simp add: prepareSubscribe_split prepareSubscribe_rest_msid)

lemma PrepareSubscribeRequest_msid:
  "PrepareSubscribeRequest ext ctx hp (d\<lparr>mesosStreamID := x\<rparr>) w =
     (case PrepareSubscribeRequest ext ctx hp d w of
        (r, d', w') \<Rightarrow> (r, d'\<lparr>mesosStreamID := x\<rparr>, w'))"
proof -
  obtain r d1 w1 where p: "prepareSubscribe ctx d w = (r, d1, w1)"
    by (cases "prepareSubscribe ctx d w") auto
  then have p': "prepareSubscribe ctx (d\<lparr>mesosStreamID := x\<rparr>) w =
      (r, d1\<lparr>mesosStreamID := x\<rparr>, w1)"
    by (simp add: prepareSubscribe_msid)
  show ?thesis
    by (simp add: PrepareSubscribeRequest_def p p' Let_def Endpoint_def split: sum.splits)
qed

lemma PostSubscribe_msid:
  "PostSubscribe ctx sid (d\<lparr>mesosStreamID := x\<rparr>) w =
     (case PostSubscribe ctx sid d w of (d', w') \<Rightarrow> (d'\<lparr>mesosStreamID := x\<rparr>, w'))"
  by (simp add: PostSubscribe_def Let_def split: prod.splits option.splits)

lemma GetMesosStreamID_nocache_msid:
  "GetMesosStreamID_nocache ctx (d\<lparr>mesosStreamID := x\<rparr>) w =
     (case GetMesosStreamID ctx d w of (r, d', w') \<Rightarrow> (r, d'\<lparr>mesosStreamID := x\<rparr>, w'))"
  by (simp add: GetMesosStreamID_nocache_def GetMesosStreamID_def Let_def
      split: prod.splits sum.splits)

text \<open>
  One step of the driver without the assignment, from a driver whose stream ID field holds
  anything, gives what the step of the driver as written gives, with that field still
  holding the same.
\<close>

lemma step_nocache_msid:
  "step_nocache ext x (d\<lparr>mesosStreamID := m\<rparr>, w) =
     (case step ext x (d, w) of (r, d', w') \<Rightarrow> (r, d'\<lparr>mesosStreamID := m\<rparr>, w'))"
  by (cases x)
     (simp_all add: GetFrameworkID_msid prepareSubscribe_msid PrepareSubscribeRequest_msid
        PostSubscribe_msid GetMesosStreamID_nocache_msid Name_driver_def Endpoint_def
        GetContentEncoding_def split: prod.splits)

lemma run_nocache_msid:
  "run_nocache ext xs (d\<lparr>mesosStreamID := m\<rparr>, w) =
     (case run ext xs (d, w) of (rs, d', w') \<Rightarrow> (rs, d'\<lparr>mesosStreamID := m\<rparr>, w'))"
proof (induction xs arbitrary: d w)
  case Nil
  show ?case by simp
next
  case (Cons x xs)
  obtain r d1 w1 where s: "step ext x (d, w) = (r, d1, w1)"
    by (cases "step ext x (d, w)") auto
  then have "step_nocache ext x (d\<lparr>mesosStreamID := m\<rparr>, w) =
      (r, d1\<lparr>mesosStreamID := m\<rparr>, w1)"
    by (simp add: step_nocache_msid)
  with s Cons.IH [of d1 w1] show ?case
    by (simp split: prod.splits)
qed

text \<open>
  C5: the field \<open>mesosStreamID\<close> is written and never read. For every history, the driver
  without the assignment returns the same results and leaves the same world (store state,
  store calls, log) as the driver as written, and its field is still what it was at the
  start; the results and the world of the driver as written do not depend on what the
  field held at the start; and every call of \<open>GetMesosStreamID\<close> makes one call of the
  store's \<open>GetMesosStreamID\<close> and returns what the store gave (the empty string if the store
  failed), whatever the field holds.
\<close>

theorem mesosStreamID_dead_cache:
  "run_nocache ext xs (d, w) =
     (case run ext xs (d, w) of (rs, d', w') \<Rightarrow> (rs, d'\<lparr>mesosStreamID := mesosStreamID d\<rparr>, w')) \<and>
   fst (run ext xs (d\<lparr>mesosStreamID := m\<rparr>, w)) = fst (run ext xs (d, w)) \<and>
   snd (snd (run ext xs (d\<lparr>mesosStreamID := m\<rparr>, w))) = snd (snd (run ext xs (d, w))) \<and>
   (case GetMesosStreamID ctx (d\<lparr>mesosStreamID := m\<rparr>) w of
      (r, d', w') \<Rightarrow>
        calls w' = calls w @ [CallGetMesosStreamID (Name (cfg d))] \<and>
        db w' = snd (store_GetMesosStreamID (store d) ctx (Name (cfg d)) (db w)) \<and>
        r = (case fst (store_GetMesosStreamID (store d) ctx (Name (cfg d)) (db w)) of
               Inl err \<Rightarrow> [] | Inr sid \<Rightarrow> sid))"
proof -
  have a: "run_nocache ext xs (d, w) =
     (case run ext xs (d, w) of (rs, d', w') \<Rightarrow> (rs, d'\<lparr>mesosStreamID := mesosStreamID d\<rparr>, w'))"
    using run_nocache_msid [where d = d and m = "mesosStreamID d"] by simp
  have "run_nocache ext xs (d\<lparr>mesosStreamID := m\<rparr>, w) =
     (case run ext xs (d\<lparr>mesosStreamID := m\<rparr>, w) of
        (rs, d', w') \<Rightarrow> (rs, d'\<lparr>mesosStreamID := m\<rparr>, w'))"
    using run_nocache_msid [where d = "d\<lparr>mesosStreamID := m\<rparr>" and m = m] by simp
  then have b: "fst (run ext xs (d\<lparr>mesosStreamID := m\<rparr>, w)) = fst (run ext xs (d, w)) \<and>
      snd (snd (run ext xs (d\<lparr>mesosStreamID := m\<rparr>, w))) = snd (snd (run ext xs (d, w)))"
    unfolding run_nocache_msid by (auto split: prod.splits)
  have c: "case GetMesosStreamID ctx (d\<lparr>mesosStreamID := m\<rparr>) w of
      (r, d', w') \<Rightarrow>
        calls w' = calls w @ [CallGetMesosStreamID (Name (cfg d))] \<and>
        db w' = snd (store_GetMesosStreamID (store d) ctx (Name (cfg d)) (db w)) \<and>
        r = (case fst (store_GetMesosStreamID (store d) ctx (Name (cfg d)) (db w)) of
               Inl err \<Rightarrow> [] | Inr sid \<Rightarrow> sid)"
    by (simp add: GetMesosStreamID_def Let_def logf_def split: prod.splits sum.splits)
  from a b c show ?thesis by blast
qed

theorem mesosStreamID_dead_cache_witness:
  "run exampleExternals [DoPostSubscribe () ''stream-1'', DoGetMesosStreamID ()]
     (exampleDriver, exampleWorld []) =
     ([RNone, RString ''stream-1''], exampleDriver\<lparr>mesosStreamID := ''stream-1''\<rparr>,
      \<lparr>db = \<lparr>kv_frameworkID = [], kv_streamID = [(''Peloton'', ''stream-1'')]\<rparr>,
       calls = [CallSetMesosStreamID ''Peloton'' ''stream-1'', CallGetMesosStreamID ''Peloton''],
       logged = [(DebugLevel, ''Loaded Mesos stream id'')],
       os_Hostname = Inr ''host1''\<rparr>) \<and>
   run_nocache exampleExternals [DoPostSubscribe () ''stream-1'', DoGetMesosStreamID ()]
     (exampleDriver, exampleWorld []) =
     ([RNone, RString ''stream-1''], exampleDriver,
      \<lparr>db = \<lparr>kv_frameworkID = [], kv_streamID = [(''Peloton'', ''stream-1'')]\<rparr>,
       calls = [CallSetMesosStreamID ''Peloton'' ''stream-1'', CallGetMesosStreamID ''Peloton''],
       logged = [(DebugLevel, ''Loaded Mesos stream id'')],
       os_Hostname = Inr ''host1''\<rparr>)"
proof -
  have r: "run exampleExternals [DoPostSubscribe () ''stream-1'', DoGetMesosStreamID ()]
     (exampleDriver, exampleWorld []) =
     ([RNone, RString ''stream-1''], exampleDriver\<lparr>mesosStreamID := ''stream-1''\<rparr>,
      \<lparr>db = \<lparr>kv_frameworkID = [], kv_streamID = [(''Peloton'', ''stream-1'')]\<rparr>,
       calls = [CallSetMesosStreamID ''Peloton'' ''stream-1'', CallGetMesosStreamID ''Peloton''],
       logged = [(DebugLevel, ''Loaded Mesos stream id'')],
       os_Hostname = Inr ''host1''\<rparr>)"
    by (simp add: PostSubscribe_def GetMesosStreamID_def exampleDriver_def
        InitSchedulerDriver_def exampleWorld_def exampleConfig_def kvStore_def logf_def Let_def)
  have m: "mesosStreamID exampleDriver = []"
    by (simp add: exampleDriver_def InitSchedulerDriver_def)
  have e: "exampleDriver\<lparr>mesosStreamID := []\<rparr> = exampleDriver"
    using m by (metis schedulerDriver.surjective schedulerDriver.update_convs(3))
  from mesosStreamID_dead_cache
    [where ext = exampleExternals
       and xs = "[DoPostSubscribe () ''stream-1'', DoGetMesosStreamID ()]"
       and d = exampleDriver and w = "exampleWorld []" and m = "[]" and ctx = "()"]
  have "run_nocache exampleExternals [DoPostSubscribe () ''stream-1'', DoGetMesosStreamID ()]
     (exampleDriver, exampleWorld []) =
     (case run exampleExternals [DoPostSubscribe () ''stream-1'', DoGetMesosStreamID ()]
        (exampleDriver, exampleWorld []) of
        (rs, d', w') \<Rightarrow> (rs, d'\<lparr>mesosStreamID := mesosStreamID exampleDriver\<rparr>, w'))"
    by blast
  with r m e show ?thesis by simp
qed

subsection \<open>The authorization header\<close>

text \<open>
  C7, as amended: with a principal that is not empty and a secret file path that is not
  empty, \<open>GetAuthHeader\<close> returns the read error and no header if the file cannot be read, and
  else a header with the one entry Authorization, whose one value is \<open>Basic\<close>, a space, and
  the base64 encoding of the principal, a colon, and the content of the file with the white
  space at both ends trimmed. With an empty principal or an empty secret file path it
  returns a header with no entry.
\<close>

theorem auth_header:
  "fst (GetAuthHeader ReadFile config secretPath lg) =
     (if Principal (Framework config) = [] \<or> secretPath = [] then Inr []
      else case ReadFile secretPath of
             Inl err \<Rightarrow> Inl err
           | Inr buf \<Rightarrow>
               Inr [(''Authorization'',
                     [''Basic '' @
                      EncodeToString (Principal (Framework config) @ '':'' @ TrimSpace buf)])])"
proof -
  have "CanonicalMIMEHeaderKey ''Authorization'' = ''Authorization''"
    by code_simp
  then show ?thesis
    by (simp add: GetAuthHeader_def Let_def Header_Add_def split: sum.splits)
qed

theorem auth_header_witness:
  "fst (GetAuthHeader
          (\<lambda>p. if p = ''/etc/mesos/secret'' then Inr (''secret'' @ [CHR 0x0A])
                else Inl (Error ''no such file''))
          exampleConfig ''/etc/mesos/secret'' []) =
     Inr [(''Authorization'', [''Basic cGVsb3RvbjpzZWNyZXQ=''])] \<and>
   fst (GetAuthHeader
          (\<lambda>p. if p = ''/etc/mesos/secret'' then Inr (''secret'' @ [CHR 0x0A])
                else Inl (Error ''no such file''))
          exampleConfig '''' []) = Inr [] \<and>
   fst (GetAuthHeader
          (\<lambda>p. if p = ''/etc/mesos/secret'' then Inr (''secret'' @ [CHR 0x0A])
                else Inl (Error ''no such file''))
          exampleConfig ''/nowhere'' []) = Inl (Error ''no such file'')"
proof -
  have p: "Principal (Framework exampleConfig) = ''peloton''"
    by (simp add: exampleConfig_def)
  have t: "TrimSpace [CHR ''s'', CHR ''e'', CHR ''c'', CHR ''r'', CHR ''e'', CHR ''t'', CHR 0x0A] =
      ''secret''"
    by code_simp
  show ?thesis
    unfolding auth_header p by (simp add: t encodeStd_def)
qed

text \<open>
  C7 as it stands fails: with an empty principal, a secret file path that is configured and
  a file that can be read, the header that comes back has no Authorization entry.
\<close>

theorem auth_header_counterexample:
  "fst (GetAuthHeader (\<lambda>p. Inr ''secret'')
          (exampleConfig\<lparr>Framework := (Framework exampleConfig)\<lparr>Principal := []\<rparr>\<rparr>)
          ''/etc/mesos/secret'' []) = Inr [] \<and>
   \<not> (\<exists>h. fst (GetAuthHeader (\<lambda>p. Inr ''secret'')
                (exampleConfig\<lparr>Framework := (Framework exampleConfig)\<lparr>Principal := []\<rparr>\<rparr>)
                ''/etc/mesos/secret'' []) = Inr h \<and>
            map_of h ''Authorization'' =
              Some [''Basic '' @ EncodeToString ([] @ '':'' @ ''secret'')])"
  by (simp add: GetAuthHeader_def exampleConfig_def)

subsection \<open>Host lists\<close>

text \<open>
  The loop, from a set with no member twice: it fails exactly when a piece is empty once
  trimmed or a trimmed piece is there already; else it adds the trimmed pieces in order.
\<close>

lemma extractLoop_spec:
  assumes "distinct acc"
  shows "case extractLoop acc hs of
           Inl e \<Rightarrow> [] \<in> set (map TrimSpace hs) \<or> \<not> distinct (acc @ map TrimSpace hs)
         | Inr r \<Rightarrow> r = acc @ map TrimSpace hs \<and> [] \<notin> set (map TrimSpace hs) \<and>
                    distinct (acc @ map TrimSpace hs)"
  using assms
proof (induction hs arbitrary: acc)
  case Nil
  then show ?case by simp
next
  case (Cons h hs)
  show ?case
  proof (cases "TrimSpace h = [] \<or> TrimSpace h \<in> set acc")
    case True
    then show ?thesis
      by (auto simp add: Contains_def Let_def)
  next
    case False
    then have d: "distinct (acc @ [TrimSpace h])"
      using Cons.prems by simp
    from False have e: "extractLoop acc (h # hs) = extractLoop (acc @ [TrimSpace h]) hs"
      by (simp add: Contains_def Add_def Let_def)
    from Cons.IH [OF d] False show ?thesis
      unfolding e by (auto split: sum.splits)
  qed
qed

text \<open>
  The order in which \<open>ToSlice\<close> lists the members does not show in the sorted slice.
\<close>

lemma sort_ToSlice_order_immaterial:
  fixes hs ys :: "string list"
  assumes "set ys = set (ToSlice hs)" and "distinct (ToSlice hs)" and "distinct ys"
  shows "sort ys = sort (ToSlice hs)"
  using assms
  by (metis distinct_sort sorted_sort sorted_distinct_set_unique set_sort)

text \<open>
  C10: for every input and separator, with the entries being the pieces that \<open>strings.Split\<close>
  gives, each trimmed: \<open>ExtractHostnames\<close> returns an error exactly when an entry is empty
  or two entries are equal; otherwise it returns the entries sorted in ascending order of
  strings (byte by byte), and that list is sorted, has no entry twice and has the entries
  as its members.
\<close>

theorem ExtractHostnames_spec:
  "((\<exists>err. ExtractHostnames hosts sep = Inl err) \<longleftrightarrow>
      ([] \<in> set (map TrimSpace (Split hosts sep)) \<or>
       \<not> distinct (map TrimSpace (Split hosts sep)))) \<and>
   ([] \<notin> set (map TrimSpace (Split hosts sep)) \<and> distinct (map TrimSpace (Split hosts sep)) \<longrightarrow>
      ExtractHostnames hosts sep = Inr (sort (map TrimSpace (Split hosts sep))) \<and>
      sorted (sort (map TrimSpace (Split hosts sep))) \<and>
      distinct (sort (map TrimSpace (Split hosts sep))) \<and>
      set (sort (map TrimSpace (Split hosts sep))) = set (map TrimSpace (Split hosts sep)))"
  using extractLoop_spec [of "[]" "Split hosts sep"]
  by (auto simp add: ExtractHostnames_def stringset_New_def ToSlice_def split: sum.splits)

theorem ExtractHostnames_spec_witness:
  "[] \<notin> set (map TrimSpace (Split ''b, a ,c'' '','')) \<and>
   distinct (map TrimSpace (Split ''b, a ,c'' '','')) \<and>
   ExtractHostnames ''b, a ,c'' '','' = Inr [''a'', ''b'', ''c''] \<and>
   (\<exists>err. ExtractHostnames ''b,,c'' '','' = Inl err) \<and>
   (\<exists>err. ExtractHostnames ''b, a ,b'' '','' = Inl err)"
proof -
  have s: "map TrimSpace (Split ''b, a ,c'' '','') = [''b'', ''a'', ''c'']"
    by code_simp
  have s1: "[] \<in> set (map TrimSpace (Split ''b,,c'' '',''))"
    by code_simp
  have s2: "\<not> distinct (map TrimSpace (Split ''b, a ,b'' '',''))"
    by code_simp
  have o: "sort [''b'', ''a'', ''c''] = [''a'', ''b'', ''c'']"
    by code_simp
  from ExtractHostnames_spec [of "''b, a ,c''" "'',''"] s o
    ExtractHostnames_spec [of "''b,,c''" "'',''"] s1
    ExtractHostnames_spec [of "''b, a ,b''" "'',''"] s2
  show ?thesis by simp
qed

end
